theory Spec2Isabelle
  imports Main "HOL-Library.Char_ord" "HOL-Library.List_Lexorder" "HOL-Library.Sublist"
    "HOL-Library.AList"
begin

section \<open>Python values and exceptions\<close>

text \<open>
  The orchestration core passes around dictionaries of type \<open>Dict[str, Any]\<close>. A value
  of type \<open>Any\<close> is one of the constructors below: the JSON-like values, and a member of a
  plain \<open>Enum\<close> class (class name, member name), which \<open>json.dump\<close> cannot encode.
  Dictionaries keep insertion order, so they are association lists. Floats are left out.
\<close>

datatype pyval =
    PNone
  | PBool bool
  | PInt int
  | PStr string
  | PList "pyval list"
  | PDict "(string \<times> pyval) list"
  | PEnum string string

datatype py_error = TypeError | AttributeError | ValueError

text \<open>Truth value testing (\<open>if x:\<close>).\<close>

fun py_truthy :: "pyval \<Rightarrow> bool" where
  "py_truthy PNone = False"
| "py_truthy (PBool b) = b"
| "py_truthy (PInt i) = (i \<noteq> 0)"
| "py_truthy (PStr s) = (s \<noteq> [])"
| "py_truthy (PList xs) = (xs \<noteq> [])"
| "py_truthy (PDict kvs) = (kvs \<noteq> [])"
| "py_truthy (PEnum c m) = True"

text \<open>\<open>d.get(key, default)\<close>.\<close>

definition dict_get :: "(string \<times> pyval) list \<Rightarrow> string \<Rightarrow> pyval \<Rightarrow> pyval" where
  "dict_get d key dflt = (case map_of d key of None \<Rightarrow> dflt | Some v \<Rightarrow> v)"

text \<open>\<open>str.lower()\<close> on ASCII text, and the substring test \<open>pattern in s\<close>.\<close>

definition lower_char :: "char \<Rightarrow> char" where
  "lower_char c =
     (case map_of (zip ''ABCDEFGHIJKLMNOPQRSTUVWXYZ'' ''abcdefghijklmnopqrstuvwxyz'') c of
        None \<Rightarrow> c
      | Some d \<Rightarrow> d)"

definition str_lower :: "string \<Rightarrow> string" where
  "str_lower s = map lower_char s"

fun str_contains :: "string \<Rightarrow> string \<Rightarrow> bool" where
  "str_contains pat [] = (pat = [])"
| "str_contains pat (c # cs) = (prefix pat (c # cs) \<or> str_contains pat cs)"

text \<open>
  \<open>a == b\<close>. \<open>bool\<close> is a subclass of \<open>int\<close>, so \<open>True == 1\<close>; lists are equal when
  their elements are, in order; two dictionaries are equal when they have the same
  number of keys and every key of the first is a key of the second with an equal value,
  whatever the order of the keys (the keys of a dictionary are distinct); a member of an
  \<open>Enum\<close> class is equal to itself only.
\<close>

fun py_eq :: "pyval \<Rightarrow> pyval \<Rightarrow> bool"
  and py_eq_list :: "pyval list \<Rightarrow> pyval list \<Rightarrow> bool"
  and py_eq_items :: "(string \<times> pyval) list \<Rightarrow> (string \<times> pyval) list \<Rightarrow> bool"
  and py_eq_item :: "pyval \<Rightarrow> string \<Rightarrow> (string \<times> pyval) list \<Rightarrow> bool"
where
  "py_eq PNone b = (b = PNone)"
| "py_eq (PBool x) b =
     (case b of PBool y \<Rightarrow> x = y | PInt j \<Rightarrow> j = (if x then 1 else 0) | _ \<Rightarrow> False)"
| "py_eq (PInt i) b =
     (case b of PInt j \<Rightarrow> i = j | PBool y \<Rightarrow> i = (if y then 1 else 0) | _ \<Rightarrow> False)"
| "py_eq (PStr s) b = (b = PStr s)"
| "py_eq (PEnum c m) b = (b = PEnum c m)"
| "py_eq (PList xs) (PList ys) = py_eq_list xs ys"
| "py_eq (PList xs) b = False"
| "py_eq (PDict xs) (PDict ys) = (length xs = length ys \<and> py_eq_items xs ys)"
| "py_eq (PDict xs) b = False"
| "py_eq_list [] ys = (ys = [])"
| "py_eq_list (x # xs) [] = False"
| "py_eq_list (x # xs) (y # ys) = (py_eq x y \<and> py_eq_list xs ys)"
| "py_eq_items [] ys = True"
| "py_eq_items ((key, v) # xs) ys = (py_eq_item v key ys \<and> py_eq_items xs ys)"
| "py_eq_item v key [] = False"
| "py_eq_item v key ((key', v') # ys) = (if key = key' then py_eq v v' else py_eq_item v key ys)"


section \<open>Decimal numbers and \<open>json.dump\<close>\<close>

text \<open>\<open>str(n)\<close> for an integer, and \<open>int(s)\<close> for a string (\<open>None\<close> is \<open>ValueError\<close>).\<close>

definition digit_char :: "nat \<Rightarrow> char" where
  "digit_char d = ''0123456789'' ! (d mod 10)"

function nat_str :: "nat \<Rightarrow> string" where
  "nat_str n = (if n < 10 then [digit_char n] else nat_str (n div 10) @ [digit_char (n mod 10)])"
  by pat_completeness auto
termination
  by (relation "measure id") auto

declare nat_str.simps [simp del]

definition int_str :: "int \<Rightarrow> string" where
  "int_str i = (if i < 0 then CHR ''-'' # nat_str (nat (- i)) else nat_str (nat i))"

definition digit_val :: "char \<Rightarrow> nat option" where
  "digit_val c = map_of (zip ''0123456789'' [0, 1, 2, 3, 4, 5, 6, 7, 8, 9]) c"

text \<open>
  The digits of a decimal literal, most significant first. Python allows single
  underscores between digits.
\<close>

fun digits_val :: "nat \<Rightarrow> string \<Rightarrow> nat option" where
  "digits_val acc [] = Some acc"
| "digits_val acc (c # cs) =
     (if c = CHR ''_''
      then (case cs of
              [] \<Rightarrow> None
            | d # ds \<Rightarrow> if d = CHR ''_'' then None else digits_val acc cs)
      else (case digit_val c of
              None \<Rightarrow> None
            | Some d \<Rightarrow> digits_val (10 * acc + d) cs))"

text \<open>
  The blanks \<open>int\<close> skips around a literal: the ASCII blanks, and the two blanks of
  Latin-1. It does not skip the separators \<open>0x1C\<close> to \<open>0x1F\<close>, which \<open>str.strip\<close> would.
\<close>

definition is_space :: "char \<Rightarrow> bool" where
  "is_space c = (c \<in> set [CHR 0x09, CHR 0x0A, CHR 0x0B, CHR 0x0C, CHR 0x0D, CHR 0x20,
                          CHR 0x85, CHR 0xA0])"

definition str_strip :: "string \<Rightarrow> string" where
  "str_strip s = rev (dropWhile is_space (rev (dropWhile is_space s)))"

definition py_int :: "string \<Rightarrow> int option" where
  "py_int s =
     (case str_strip s of
        [] \<Rightarrow> None
      | c # cs \<Rightarrow>
          let body = (if c = CHR ''-'' \<or> c = CHR ''+'' then cs else c # cs)
          in if body = [] \<or> hd body = CHR ''_'' then None
             else (case digits_val 0 body of
                     None \<Rightarrow> None
                   | Some n \<Rightarrow> Some (if c = CHR ''-'' then - int n else int n)))"

text \<open>\<open>s.split(sep)\<close> for a separator of one character.\<close>

fun split_on :: "char \<Rightarrow> string \<Rightarrow> string list" where
  "split_on sep [] = [[]]"
| "split_on sep (c # cs) =
     (if c = sep then [] # split_on sep cs
      else (case split_on sep cs of
              [] \<Rightarrow> [[c]]
            | w # ws \<Rightarrow> (c # w) # ws))"

text \<open>
  \<open>json.dump(obj, f, indent=2)\<close>. The encoder yields the text piece by piece and the
  pieces are written to the file as they come; a member of an \<open>Enum\<close> class reaches
  \<open>JSONEncoder.default\<close>, which raises \<open>TypeError\<close>. The result is the text written so
  far, and whether the encoding went through.
\<close>

definition hex_char :: "nat \<Rightarrow> char" where
  "hex_char d = ''0123456789abcdef'' ! (d mod 16)"

definition json_escape_char :: "char \<Rightarrow> string" where
  "json_escape_char c =
     (if c = CHR 0x22 then [CHR 0x5C, CHR 0x22]
      else if c = CHR 0x5C then [CHR 0x5C, CHR 0x5C]
      else if c = CHR 0x0A then [CHR 0x5C, CHR ''n'']
      else if c = CHR 0x0D then [CHR 0x5C, CHR ''r'']
      else if c = CHR 0x09 then [CHR 0x5C, CHR ''t'']
      else if c = CHR 0x0C then [CHR 0x5C, CHR ''f'']
      else if c = CHR 0x08 then [CHR 0x5C, CHR ''b'']
      else if (of_char c :: nat) < 32 \<or> 126 < (of_char c :: nat)
      then [CHR 0x5C, CHR ''u'', CHR ''0'', CHR ''0'',
            hex_char (of_char c div 16), hex_char (of_char c mod 16)]
      else [c])"

definition json_str :: "string \<Rightarrow> string" where
  "json_str s = CHR 0x22 # concat (map json_escape_char s) @ [CHR 0x22]"

definition newline_indent :: "nat \<Rightarrow> string" where
  "newline_indent level = CHR 0x0A # replicate (2 * level) CHR '' ''"

fun json_iterencode :: "nat \<Rightarrow> pyval \<Rightarrow> string \<times> bool"
  and json_iterencode_list :: "nat \<Rightarrow> bool \<Rightarrow> pyval list \<Rightarrow> string \<times> bool"
  and json_iterencode_dict :: "nat \<Rightarrow> bool \<Rightarrow> (string \<times> pyval) list \<Rightarrow> string \<times> bool"
where
  "json_iterencode level PNone = (''null'', True)"
| "json_iterencode level (PBool b) = (if b then ''true'' else ''false'', True)"
| "json_iterencode level (PInt i) = (int_str i, True)"
| "json_iterencode level (PStr s) = (json_str s, True)"
| "json_iterencode level (PEnum c m) = ([], False)"
| "json_iterencode level (PList xs) =
     (if xs = [] then (''[]'', True)
      else (case json_iterencode_list (Suc level) True xs of
              (out, ok) \<Rightarrow> if ok then (out @ newline_indent level @ '']'', True)
                           else (out, False)))"
| "json_iterencode level (PDict kvs) =
     (if kvs = [] then (''{}'', True)
      else (case json_iterencode_dict (Suc level) True kvs of
              (out, ok) \<Rightarrow>
                if ok then (''{'' @ newline_indent (Suc level) @ out @ newline_indent level @ ''}'',
                            True)
                else (''{'' @ newline_indent (Suc level) @ out, False)))"
| "json_iterencode_list level first [] = ([], True)"
| "json_iterencode_list level first (v # vs) =
     (let buf = (if first then ''['' @ newline_indent level else '','' @ newline_indent level)
      in case json_iterencode level v of
           (out, ok) \<Rightarrow>
             if ok then (case json_iterencode_list level False vs of
                           (out', ok') \<Rightarrow> (buf @ out @ out', ok'))
             else (buf @ out, False))"
| "json_iterencode_dict level first [] = ([], True)"
| "json_iterencode_dict level first ((key, v) # kvs) =
     (let buf = (if first then [] else '','' @ newline_indent level) @ json_str key @ '': ''
      in case json_iterencode level v of
           (out, ok) \<Rightarrow>
             if ok then (case json_iterencode_dict level False kvs of
                           (out', ok') \<Rightarrow> (buf @ out @ out', ok'))
             else (buf @ out, False))"

definition json_dump :: "pyval \<Rightarrow> string \<times> bool" where
  "json_dump obj = json_iterencode 0 obj"


text \<open>The values the encoder accepts: those with no \<open>Enum\<close> member anywhere inside.\<close>

fun json_encodable :: "pyval \<Rightarrow> bool" where
  "json_encodable PNone = True"
| "json_encodable (PBool b) = True"
| "json_encodable (PInt i) = True"
| "json_encodable (PStr s) = True"
| "json_encodable (PEnum c m) = False"
| "json_encodable (PList xs) = list_all json_encodable xs"
| "json_encodable (PDict kvs) = list_all (\<lambda>kv. json_encodable (snd kv)) kvs"


section \<open>Autonomy controller (core/autonomy_controller.py)\<close>

datatype OperationCategory =
    READ_FILE | WRITE_FILE | DELETE_FILE | EXECUTE_COMMAND | NETWORK_REQUEST
  | DATABASE_QUERY | DATABASE_WRITE | GIT_COMMIT | GIT_PUSH | INSTALL_PACKAGE
  | MODIFY_CONFIG | CREATE_BACKUP | RESTORE_BACKUP

datatype OperationRisk = SAFE | LOW | MEDIUM | HIGH | CRITICAL

text \<open>The document \<open>_save_config\<close> writes to \<open>config/autonomy_config.json\<close>.\<close>

record config_doc =
  doc_autonomy_level :: string
  doc_approved_categories :: "string \<rightharpoonup> OperationCategory set"
  doc_always_require_approval :: "OperationCategory set"
  doc_last_updated :: string

text \<open>
  The fields of \<open>AutonomyController\<close>. The autonomy level is a \<open>str\<close> in this class, and
  \<open>approved_categories\<close> is a dictionary from level names to sets of categories.
  \<open>config_file\<close> is the content of the configuration file, \<open>None\<close> while it does not exist.
\<close>

record AutonomyController =
  autonomy_level :: string
  approved_categories :: "string \<rightharpoonup> OperationCategory set"
  always_require_approval :: "OperationCategory set"
  config_file :: "config_doc option"

text \<open>The dictionary \<open>self.operation_risks\<close>, set in \<open>__init__\<close> and never changed.\<close>

fun operation_risks :: "OperationCategory \<rightharpoonup> OperationRisk" where
  "operation_risks READ_FILE = Some SAFE"
| "operation_risks WRITE_FILE = Some LOW"
| "operation_risks DELETE_FILE = Some HIGH"
| "operation_risks EXECUTE_COMMAND = Some MEDIUM"
| "operation_risks NETWORK_REQUEST = Some MEDIUM"
| "operation_risks DATABASE_QUERY = Some SAFE"
| "operation_risks DATABASE_WRITE = Some MEDIUM"
| "operation_risks GIT_COMMIT = Some LOW"
| "operation_risks GIT_PUSH = Some HIGH"
| "operation_risks INSTALL_PACKAGE = Some MEDIUM"
| "operation_risks MODIFY_CONFIG = Some MEDIUM"
| "operation_risks CREATE_BACKUP = Some SAFE"
| "operation_risks RESTORE_BACKUP = Some HIGH"

text \<open>\<open>self.operation_risks.get(operation, OperationRisk.MEDIUM)\<close>.\<close>

definition risk_of :: "OperationCategory \<Rightarrow> OperationRisk" where
  "risk_of operation = (case operation_risks operation of None \<Rightarrow> MEDIUM | Some r \<Rightarrow> r)"

text \<open>The defaults \<open>__init__\<close> sets before it reads the configuration file.\<close>

definition default_approved :: "string \<rightharpoonup> OperationCategory set" where
  "default_approved =
     [''manual'' \<mapsto> {},
      ''semi_auto'' \<mapsto> {READ_FILE, WRITE_FILE, EXECUTE_COMMAND, DATABASE_QUERY, CREATE_BACKUP},
      ''full_auto'' \<mapsto> {READ_FILE, WRITE_FILE, DELETE_FILE, EXECUTE_COMMAND, NETWORK_REQUEST,
                       DATABASE_QUERY, DATABASE_WRITE, GIT_COMMIT, CREATE_BACKUP, MODIFY_CONFIG}]"

definition default_controller :: AutonomyController where
  "default_controller =
     \<lparr> autonomy_level = ''semi_auto'',
       approved_categories = default_approved,
       always_require_approval = {GIT_PUSH, RESTORE_BACKUP},
       config_file = None \<rparr>"

text \<open>\<open>_save_config\<close>; \<open>now\<close> is the reading of \<open>datetime.utcnow().isoformat()\<close>.\<close>

definition save_config :: "AutonomyController \<Rightarrow> string \<Rightarrow> AutonomyController" where
  "save_config c now =
     c\<lparr> config_file := Some
          \<lparr> doc_autonomy_level = autonomy_level c,
            doc_approved_categories = approved_categories c,
            doc_always_require_approval = always_require_approval c,
            doc_last_updated = now \<rparr> \<rparr>"

text \<open>\<open>set_autonomy_level\<close>: an unknown level raises \<open>ValueError\<close> and changes nothing.\<close>

definition set_autonomy_level ::
  "AutonomyController \<Rightarrow> string \<Rightarrow> string \<Rightarrow> py_error + AutonomyController" where
  "set_autonomy_level c level now =
     (if level \<notin> set [''manual'', ''semi_auto'', ''full_auto''] then Inl ValueError
      else Inr (save_config (c\<lparr> autonomy_level := level \<rparr>) now))"

definition protected_patterns :: "string list" where
  "protected_patterns = [''.git/'', ''config/'', ''.env'', ''secrets'', ''credentials'']"

definition is_protected_path :: "string \<Rightarrow> bool" where
  "is_protected_path path =
     (let path_lower = str_lower path
      in list_ex (\<lambda>pattern. str_contains pattern path_lower) protected_patterns)"

text \<open>
  \<open>requires_approval(operation, context)\<close>. The context is \<open>None\<close> or a dictionary; the
  block of context-based checks runs only when the context is truthy, that is a dictionary
  with at least one key. \<open>path.lower()\<close> raises \<open>AttributeError\<close> when the value under
  \<open>"path"\<close> is not a string.
\<close>

definition requires_approval ::
  "AutonomyController \<Rightarrow> OperationCategory \<Rightarrow> (string \<times> pyval) list option \<Rightarrow> py_error + bool"
where
  "requires_approval c operation context =
     (if operation \<in> always_require_approval c then Inr True
      else if autonomy_level c = ''manual'' then Inr True
      else
        let approved = (case approved_categories c (autonomy_level c) of
                          None \<Rightarrow> {} | Some s \<Rightarrow> s)
        in if operation \<notin> approved then Inr True
           else (case context of
                   None \<Rightarrow> Inr False
                 | Some ctx \<Rightarrow>
                     if ctx = [] then Inr False
                     else
                       let risk = risk_of operation
                       in if autonomy_level c = ''semi_auto'' \<and> risk \<in> set [HIGH, CRITICAL]
                          then Inr True
                          else if py_truthy (dict_get ctx ''force_approval'' PNone)
                          then Inr True
                          else if operation \<in> set [WRITE_FILE, DELETE_FILE]
                          then (case dict_get ctx ''path'' (PStr []) of
                                  PStr path \<Rightarrow> if is_protected_path path then Inr True
                                               else Inr False
                                | _ \<Rightarrow> Inl AttributeError)
                          else Inr False))"

text \<open>
  \<open>approve_operation\<close> adds the category to the set of the current level, when the
  dictionary has that level, saves the configuration and returns the approval id;
  \<open>stamp\<close> is \<open>datetime.utcnow().strftime('%Y%m%d%H%M%S')\<close>.
\<close>

definition approve_operation ::
  "AutonomyController \<Rightarrow> OperationCategory \<Rightarrow> string \<Rightarrow> string option \<Rightarrow> string \<Rightarrow> string
     \<Rightarrow> string \<times> AutonomyController"
where
  "approve_operation c operation reason expiry now stamp =
     (let c1 = (case approved_categories c (autonomy_level c) of
                  None \<Rightarrow> c
                | Some s \<Rightarrow> c\<lparr> approved_categories :=
                               (approved_categories c)(autonomy_level c \<mapsto> insert operation s) \<rparr>)
      in (''approval_'' @ stamp, save_config c1 now))"

text \<open>
  \<open>revoke_approval\<close>: the loop \<open>for level in self.approved_categories\<close> discards the
  category from the set of every level.
\<close>

definition revoke_approval ::
  "AutonomyController \<Rightarrow> OperationCategory \<Rightarrow> string \<Rightarrow> AutonomyController" where
  "revoke_approval c operation now =
     save_config
       (c\<lparr> approved_categories :=
            (\<lambda>level. map_option (\<lambda>s. s - {operation}) (approved_categories c level)) \<rparr>)
       now"

text \<open>\<open>get_approved_operations\<close>, as a set.\<close>

definition get_approved_operations :: "AutonomyController \<Rightarrow> OperationCategory set" where
  "get_approved_operations c =
     (case approved_categories c (autonomy_level c) of None \<Rightarrow> {} | Some s \<Rightarrow> s)"


section \<open>State manager (core/state_manager.py)\<close>

text \<open>
  A file path is the list of its parts below the directory it is read from; Python
  orders \<open>Path\<close> objects by their parts. A directory tree is the association list of
  its files, in the order the directory scan returns them, with the bytes of each file.
\<close>

type_synonym path = "string list"
type_synonym tree = "(path \<times> string) list"

text \<open>A version entry of the version index.\<close>

record version_entry =
  version :: string
  label :: "string option"
  timestamp :: string
  increment_type :: string
  state_hash :: string
  file_count :: nat
  metadata :: "(string \<times> pyval) list"
  snapshot_dir :: string

text \<open>
  The state manager with the part of the file system it works on: \<open>state_dir\<close> holds the
  files below \<open>workspace/state\<close> (the version index \<open>versions.json\<close> among them), and
  \<open>backup_dir\<close> maps the path of each existing snapshot directory to its files. Snapshot
  directories are not nested in one another.
\<close>

record StateManager =
  current_version :: string
  versions :: "version_entry list"
  state_dir :: tree
  backup_dir :: "(string \<times> tree) list"

definition versions_file :: path where
  "versions_file = [''versions.json'']"

text \<open>The pattern \<open>*.json\<close> of \<open>rglob\<close> is matched against the last part of a path.\<close>

definition is_json :: "path \<Rightarrow> bool" where
  "is_json p = (p \<noteq> [] \<and> suffix ''.json'' (last p))"

definition rglob_json :: "tree \<Rightarrow> tree" where
  "rglob_json t = filter (\<lambda>(p, bytes). is_json p) t"

text \<open>\<open>shutil.copy2\<close> of each listed file into a tree, replacing a file of the same path.\<close>

definition copy_files :: "tree \<Rightarrow> tree \<Rightarrow> tree" where
  "copy_files files dst = foldl (\<lambda>d (p, bytes). AList.update p bytes d) dst files"

definition entry_json :: "version_entry \<Rightarrow> pyval" where
  "entry_json e =
     PDict [(''version'', PStr (version e)),
            (''label'', (case label e of None \<Rightarrow> PNone | Some l \<Rightarrow> PStr l)),
            (''timestamp'', PStr (timestamp e)),
            (''increment_type'', PStr (increment_type e)),
            (''state_hash'', PStr (state_hash e)),
            (''file_count'', PInt (int (file_count e))),
            (''metadata'', PDict (metadata e)),
            (''snapshot_dir'', PStr (snapshot_dir e))]"

text \<open>
  \<open>_save_version_history\<close> opens \<open>versions.json\<close> for writing and dumps the index into it;
  \<open>now\<close> is the reading of the clock. When the dump raises, the file keeps the text
  written so far.
\<close>

definition index_data :: "string \<Rightarrow> version_entry list \<Rightarrow> string \<Rightarrow> pyval" where
  "index_data cur vs now =
     PDict [(''current_version'', PStr cur),
            (''versions'', PList (map entry_json vs)),
            (''last_updated'', PStr now)]"

definition save_version_history :: "StateManager \<Rightarrow> string \<Rightarrow> py_error option \<times> StateManager"
where
  "save_version_history s now =
     (let (out, ok) = json_dump (index_data (current_version s) (versions s) now)
      in (if ok then None else Some TypeError,
          s\<lparr> state_dir := AList.update versions_file out (state_dir s) \<rparr>))"

text \<open>The text of the index, and whether every entry of a history can be encoded.\<close>

definition index_text :: "string \<Rightarrow> version_entry list \<Rightarrow> string \<Rightarrow> string" where
  "index_text cur vs now = fst (json_dump (index_data cur vs now))"

definition encodable_history :: "version_entry list \<Rightarrow> bool" where
  "encodable_history vs = list_all (\<lambda>e. json_encodable (PDict (metadata e))) vs"

text \<open>\<open>_increment_version\<close>; unpacking or \<open>int\<close> may raise \<open>ValueError\<close>.\<close>

definition format_version :: "int \<Rightarrow> int \<Rightarrow> int \<Rightarrow> string" where
  "format_version major minor patch = int_str major @ ''.'' @ int_str minor @ ''.'' @ int_str patch"

definition increment_version :: "string \<Rightarrow> string \<Rightarrow> py_error + string" where
  "increment_version ver increment =
     (case map py_int (split_on CHR ''.'' ver) of
        [Some major, Some minor, Some patch] \<Rightarrow>
          Inr (if increment = ''major'' then format_version (major + 1) 0 0
               else if increment = ''minor'' then format_version major (minor + 1) 0
               else format_version major minor (patch + 1))
      | _ \<Rightarrow> Inl ValueError)"

definition collect_state_files :: "StateManager \<Rightarrow> tree" where
  "collect_state_files s = rglob_json (state_dir s)"

text \<open>
  \<open>_calculate_state_hash\<close>: the digest of the bytes of the files, taken in the order of
  their sorted paths. The digest function (\<open>hashlib.sha256\<close>, as hex digits) is the
  parameter \<open>H\<close>.
\<close>

definition hash_input :: "tree \<Rightarrow> string" where
  "hash_input files = concat (map snd (sort_key fst files))"

definition calculate_state_hash :: "(string \<Rightarrow> string) \<Rightarrow> tree \<Rightarrow> string" where
  "calculate_state_hash H files = H (hash_input files)"

definition snapshot_path :: "string \<Rightarrow> string" where
  "snapshot_path new_version = ''backups/system/v'' @ new_version"

text \<open>
  \<open>create_snapshot\<close>. \<open>mkdir(parents=True, exist_ok=True)\<close> keeps an existing directory
  with its files. The clock is read for the entry (\<open>t_entry\<close>) and when the index is
  saved (\<open>t_saved\<close>). The result is the new version or the exception raised, with the
  state reached.
\<close>

definition create_snapshot ::
  "(string \<Rightarrow> string) \<Rightarrow> StateManager \<Rightarrow> string option \<Rightarrow> string \<Rightarrow> (string \<times> pyval) list option
     \<Rightarrow> string \<Rightarrow> string \<Rightarrow> (py_error + string) \<times> StateManager"
where
  "create_snapshot H s lbl increment meta t_entry t_saved =
     (case increment_version (current_version s) increment of
        Inl err \<Rightarrow> (Inl err, s)
      | Inr new_version \<Rightarrow>
          let state_files = collect_state_files s;
              dir = snapshot_path new_version;
              old = (case map_of (backup_dir s) dir of None \<Rightarrow> [] | Some t \<Rightarrow> t);
              s1 = s\<lparr> backup_dir := AList.update dir (copy_files state_files old) (backup_dir s) \<rparr>;
              version_entry =
                \<lparr> version = new_version,
                  label = lbl,
                  timestamp = t_entry,
                  increment_type = increment,
                  state_hash = calculate_state_hash H state_files,
                  file_count = length state_files,
                  metadata = (case meta of None \<Rightarrow> [] | Some m \<Rightarrow> m),
                  snapshot_dir = dir \<rparr>;
              s2 = s1\<lparr> versions := versions s1 @ [version_entry], current_version := new_version \<rparr>
          in (case save_version_history s2 t_saved of
                (Some err, s3) \<Rightarrow> (Inl err, s3)
              | (None, s3) \<Rightarrow> (Inr new_version, s3)))"

text \<open>The entry \<open>create_snapshot\<close> appends, for new version \<open>nv\<close>.\<close>

definition new_entry ::
  "(string \<Rightarrow> string) \<Rightarrow> StateManager \<Rightarrow> string \<Rightarrow> string option \<Rightarrow> string
     \<Rightarrow> (string \<times> pyval) list option \<Rightarrow> string \<Rightarrow> version_entry" where
  "new_entry H s nv lbl increment meta t_entry =
     \<lparr> version = nv, label = lbl, timestamp = t_entry, increment_type = increment,
       state_hash = calculate_state_hash H (collect_state_files s),
       file_count = length (collect_state_files s),
       metadata = (case meta of None \<Rightarrow> [] | Some m \<Rightarrow> m),
       snapshot_dir = snapshot_path nv \<rparr>"

text \<open>
  \<open>restore_snapshot\<close>. The two early returns come before any change; then the safety
  snapshot is taken, every state file is unlinked, and the files now found in the
  snapshot directory are copied back.
\<close>

definition restore_snapshot ::
  "(string \<Rightarrow> string) \<Rightarrow> StateManager \<Rightarrow> string \<Rightarrow> string \<Rightarrow> string \<Rightarrow> string
     \<Rightarrow> (py_error + bool) \<times> StateManager"
where
  "restore_snapshot H s ver t_entry t_saved t_restored =
     (case find (\<lambda>v. version v = ver) (versions s) of
        None \<Rightarrow> (Inr False, s)
      | Some version_entry \<Rightarrow>
          (case map_of (backup_dir s) (snapshot_dir version_entry) of
             None \<Rightarrow> (Inr False, s)
           | Some t0 \<Rightarrow>
               (case create_snapshot H s (Some (''Before restore to v'' @ ver)) ''patch'' None
                       t_entry t_saved of
                  (Inl err, s1) \<Rightarrow> (Inl err, s1)
                | (Inr new_version, s1) \<Rightarrow>
                    let s2 = s1\<lparr> state_dir := filter (\<lambda>(p, bytes). \<not> is_json p) (state_dir s1) \<rparr>;
                        snapshot = (case map_of (backup_dir s2) (snapshot_dir version_entry) of
                                      None \<Rightarrow> [] | Some t \<Rightarrow> t);
                        s3 = s2\<lparr> state_dir := copy_files (rglob_json snapshot) (state_dir s2) \<rparr>;
                        s4 = s3\<lparr> current_version := ver \<rparr>
                    in (case save_version_history s4 t_restored of
                          (Some err, s5) \<Rightarrow> (Inl err, s5)
                        | (None, s5) \<Rightarrow> (Inr True, s5)))))"

text \<open>Python slices \<open>xs[:k]\<close> and \<open>xs[k:]\<close> for an integer \<open>k\<close>.\<close>

definition slice_bound :: "int \<Rightarrow> 'a list \<Rightarrow> nat" where
  "slice_bound k xs = (if k < 0 then nat (int (length xs) + k) else nat k)"

definition slice_to :: "int \<Rightarrow> 'a list \<Rightarrow> 'a list" where
  "slice_to k xs = take (slice_bound k xs) xs"

definition slice_from :: "int \<Rightarrow> 'a list \<Rightarrow> 'a list" where
  "slice_from k xs = drop (slice_bound k xs) xs"

text \<open>
  \<open>sorted(xs, key=..., reverse=True)\<close>: descending and stable, elements with equal keys
  keep their order.
\<close>

definition sorted_reverse :: "('a \<Rightarrow> 'k::linorder) \<Rightarrow> 'a list \<Rightarrow> 'a list" where
  "sorted_reverse key xs = rev (sort_key key (rev xs))"

text \<open>
  \<open>cleanup_old_snapshots\<close>. \<open>shutil.rmtree\<close> removes the snapshot directory of each entry
  beyond the first \<open>keep_count\<close>, when it exists.
\<close>

definition cleanup_old_snapshots ::
  "StateManager \<Rightarrow> int \<Rightarrow> string \<Rightarrow> py_error option \<times> StateManager" where
  "cleanup_old_snapshots s keep_count now =
     (if int (length (versions s)) \<le> keep_count then (None, s)
      else
        let sorted_versions = sorted_reverse timestamp (versions s);
            keep_versions = slice_to keep_count sorted_versions;
            remove_versions = slice_from keep_count sorted_versions;
            s1 = s\<lparr> backup_dir :=
                      foldl (\<lambda>b v. AList.delete (snapshot_dir v) b) (backup_dir s) remove_versions \<rparr>;
            s2 = s1\<lparr> versions := keep_versions \<rparr>
        in save_version_history s2 now)"





definition next_dir :: "StateManager \<Rightarrow> string \<Rightarrow> string option" where
  "next_dir s increment =
     (case increment_version (current_version s) increment of
        Inl err \<Rightarrow> None
      | Inr new_version \<Rightarrow> Some (snapshot_path new_version))"



text \<open>The files of a tree other than the version index.\<close>

definition non_index :: "tree \<Rightarrow> tree" where
  "non_index t = filter (\<lambda>(p, bytes). p \<noteq> versions_file) t"

text \<open>Example states of the state manager, for the concrete runs below.\<close>

definition sm_example :: StateManager where
  "sm_example =
     \<lparr> current_version = ''1.0.1'',
       versions = [\<lparr> version = ''1.0.1'', label = None, timestamp = ''2024-01-01T00:00:00'',
                     increment_type = ''patch'', state_hash = ''00'', file_count = 1,
                     metadata = [], snapshot_dir = ''backups/system/v1.0.1'' \<rparr>],
       state_dir = [([''agent.json''], ''{}'')],
       backup_dir = [] \<rparr>"

text \<open>A fresh workspace with one state file and no snapshot yet.\<close>

definition sm_fresh :: StateManager where
  "sm_fresh =
     \<lparr> current_version = ''1.0.0'', versions = [],
       state_dir = [([''agent.json''], ''{}'')], backup_dir = [] \<rparr>"

text \<open>
  Two snapshots (1.0.1 and 1.0.2), then a restore of 1.0.1, which takes the safety
  snapshot 1.0.3 and sets the current version back to 1.0.1. The digest function is
  instantiated by the identity.
\<close>

definition sm_one :: StateManager where
  "sm_one = snd (create_snapshot (\<lambda>bytes. bytes) sm_fresh None ''patch'' None ''t1'' ''t1'')"

definition sm_two :: StateManager where
  "sm_two = snd (create_snapshot (\<lambda>bytes. bytes) sm_one None ''patch'' None ''t2'' ''t2'')"

definition sm_restored :: StateManager where
  "sm_restored = snd (restore_snapshot (\<lambda>bytes. bytes) sm_two ''1.0.1'' ''t3'' ''t3'' ''t4'')"

text \<open>
  One snapshot (1.0.1), a restore of it, and the snapshot taken right after the restore.
\<close>

definition sm_round_restored :: StateManager where
  "sm_round_restored =
     snd (restore_snapshot (\<lambda>bytes. bytes) sm_one ''1.0.1'' ''t2'' ''t2'' ''t3'')"

definition sm_round :: StateManager where
  "sm_round =
     snd (create_snapshot (\<lambda>bytes. bytes) sm_round_restored None ''patch'' None ''t4'' ''t4'')"

text \<open>The entries these calls append.\<close>

abbreviation "entry1 \<equiv> new_entry (\<lambda>bytes. bytes) sm_fresh ''1.0.1'' None ''patch'' None ''t1''"
abbreviation "entry2 \<equiv> new_entry (\<lambda>bytes. bytes) sm_one ''1.0.2'' None ''patch'' None ''t2''"
abbreviation "entry3 \<equiv> new_entry (\<lambda>bytes. bytes) sm_two ''1.0.3''
                          (Some ''Before restore to v1.0.1'') ''patch'' None ''t3''"
abbreviation "safety2 \<equiv> new_entry (\<lambda>bytes. bytes) sm_one ''1.0.2''
                           (Some ''Before restore to v1.0.1'') ''patch'' None ''t2''"


section \<open>Orchestrator (core/orchestrator.py)\<close>

datatype AutonomyLevel = MANUAL | SEMI_AUTO | FULL_AUTO

datatype TaskStatus =
  QUEUED | WAITING_APPROVAL | APPROVED | RUNNING | COMPLETED | FAILED | CANCELLED

text \<open>\<open>AgentPriority\<close> of \<open>agent_base.py\<close>, with the values of its members.\<close>

datatype AgentPriority = PRIO_LOW | PRIO_MEDIUM | PRIO_HIGH | PRIO_CRITICAL

fun priority_value :: "AgentPriority \<Rightarrow> int" where
  "priority_value PRIO_LOW = 1"
| "priority_value PRIO_MEDIUM = 2"
| "priority_value PRIO_HIGH = 3"
| "priority_value PRIO_CRITICAL = 4"

fun priority_name :: "AgentPriority \<Rightarrow> string" where
  "priority_name PRIO_LOW = ''LOW''"
| "priority_name PRIO_MEDIUM = ''MEDIUM''"
| "priority_name PRIO_HIGH = ''HIGH''"
| "priority_name PRIO_CRITICAL = ''CRITICAL''"

fun status_name :: "TaskStatus \<Rightarrow> string" where
  "status_name QUEUED = ''QUEUED''"
| "status_name WAITING_APPROVAL = ''WAITING_APPROVAL''"
| "status_name APPROVED = ''APPROVED''"
| "status_name RUNNING = ''RUNNING''"
| "status_name COMPLETED = ''COMPLETED''"
| "status_name FAILED = ''FAILED''"
| "status_name CANCELLED = ''CANCELLED''"

fun level_value :: "AutonomyLevel \<Rightarrow> string" where
  "level_value MANUAL = ''manual''"
| "level_value SEMI_AUTO = ''semi_auto''"
| "level_value FULL_AUTO = ''full_auto''"

text \<open>
  The task dictionary a caller submits: the value under \<open>"id"\<close>, a \<open>str\<close> when the key is
  present (task ids are strings throughout the orchestrator), and the other keys.
\<close>

record task_dict =
  payload_id :: "string option"
  payload_items :: "(string \<times> pyval) list"

text \<open>The task wrapper \<open>submit_task\<close> builds; \<open>None\<close> in the last three fields is Python's.\<close>

record task_wrapper =
  task_id :: string
  agent_name :: string
  task :: task_dict
  priority :: AgentPriority
  dependencies :: "string list"
  requires_approval_flag :: bool
  status :: TaskStatus
  submitted_at :: string
  started_at :: "string option"
  completed_at :: "string option"
  result :: "pyval option"

text \<open>
  What the orchestrator reads of a registered agent. The agent runtime owns the agent's
  lifecycle state; the orchestrator only reads its value when it saves its own state.
\<close>

record agent =
  ag_id :: string
  ag_name :: string
  ag_state :: string
  ag_type :: string

text \<open>
  The fields of \<open>AgentOrchestrator\<close>; \<open>orch_level\<close> is its \<open>autonomy_level\<close>, an
  \<open>AutonomyLevel\<close> member here. \<open>task_queue\<close> is the list inside the
  \<open>PriorityQueue\<close>, a binary heap of pairs (number, wrapper). The dictionaries
  \<open>agents\<close> and \<open>active_tasks\<close> keep insertion order.
\<close>

record orchestrator =
  orch_level :: AutonomyLevel
  agents :: "(string \<times> agent) list"
  task_queue :: "(int \<times> task_wrapper) list"
  pending_approval :: "task_wrapper list"
  active_tasks :: "(string \<times> task_wrapper) list"
  completed_tasks :: "task_wrapper list"
  task_graph :: "string \<rightharpoonup> string set"
  running :: bool
  orchestrator_id :: string

definition new_orchestrator :: "string \<Rightarrow> orchestrator" where
  "new_orchestrator oid =
     \<lparr> orch_level = SEMI_AUTO, agents = [], task_queue = [], pending_approval = [],
       active_tasks = [], completed_tasks = [], task_graph = Map.empty, running = False,
       orchestrator_id = oid \<rparr>"

subsection \<open>Task wrappers as dictionaries\<close>

text \<open>
  The task dictionary as a value; the \<open>"id"\<close> is the key \<open>submit_task\<close> stores last when
  the caller's dictionary had none.
\<close>

definition task_json :: "task_dict \<Rightarrow> pyval" where
  "task_json t =
     PDict (payload_items t @ (case payload_id t of None \<Rightarrow> [] | Some i \<Rightarrow> [(''id'', PStr i)]))"

definition opt_str :: "string option \<Rightarrow> pyval" where
  "opt_str x = (case x of None \<Rightarrow> PNone | Some v \<Rightarrow> PStr v)"

text \<open>A task wrapper as the dictionary it is: priority and status are \<open>Enum\<close> members.\<close>

definition wrapper_json :: "task_wrapper \<Rightarrow> pyval" where
  "wrapper_json w =
     PDict [(''task_id'', PStr (task_id w)),
            (''agent_name'', PStr (agent_name w)),
            (''task'', task_json (task w)),
            (''priority'', PEnum ''AgentPriority'' (priority_name (priority w))),
            (''dependencies'', PList (map PStr (dependencies w))),
            (''requires_approval'', PBool (requires_approval_flag w)),
            (''status'', PEnum ''TaskStatus'' (status_name (status w))),
            (''submitted_at'', PStr (submitted_at w)),
            (''started_at'', opt_str (started_at w)),
            (''completed_at'', opt_str (completed_at w)),
            (''result'', (case result w of None \<Rightarrow> PNone | Some r \<Rightarrow> r))]"

text \<open>\<open>w1 == w2\<close> for two task wrappers.\<close>

definition wrapper_eq :: "task_wrapper \<Rightarrow> task_wrapper \<Rightarrow> bool" where
  "wrapper_eq w1 w2 = py_eq (wrapper_json w1) (wrapper_json w2)"

subsection \<open>The priority queue\<close>

text \<open>
  \<open>queue.PriorityQueue\<close> keeps its entries in a list ordered as a binary heap by the
  functions of \<open>heapq\<close>; \<open>get\<close> returns the smallest entry. Entries are tuples
  (number, wrapper) and are compared as tuples: by the numbers when these differ; when
  the numbers are equal the wrappers are compared, equal wrappers make equal tuples, and
  \<open><\<close> between two different dictionaries raises \<open>TypeError\<close>.
\<close>

type_synonym entry = "int \<times> task_wrapper"

definition entry_lt :: "entry \<Rightarrow> entry \<Rightarrow> py_error + bool" where
  "entry_lt a b =
     (if fst a \<noteq> fst b then Inr (fst a < fst b)
      else if wrapper_eq (snd a) (snd b) then Inr False
      else Inl TypeError)"

text \<open>
  \<open>siftdown\<close> moves the entry at \<open>pos\<close> up towards \<open>startpos\<close> while it is smaller than
  its parent, swapping in place; a comparison that raises leaves the list as it is then.
\<close>

function siftdown :: "entry list \<Rightarrow> nat \<Rightarrow> nat \<Rightarrow> py_error option \<times> entry list" where
  "siftdown heap startpos pos =
     (if startpos < pos \<and> pos < length heap
      then (case entry_lt (heap ! pos) (heap ! ((pos - 1) div 2)) of
              Inl err \<Rightarrow> (Some err, heap)
            | Inr lt \<Rightarrow>
                if lt
                then siftdown (heap[(pos - 1) div 2 := heap ! pos, pos := heap ! ((pos - 1) div 2)])
                       startpos ((pos - 1) div 2)
                else (None, heap))
      else (None, heap))"
  by pat_completeness auto
termination
  by (relation "measure (\<lambda>(heap, startpos, pos). pos)") auto

declare siftdown.simps [simp del]

text \<open>
  \<open>siftup\<close> first moves the smaller child up until a leaf is reached, then sifts the
  entry down from there to its place.
\<close>

function siftup_loop :: "entry list \<Rightarrow> nat \<Rightarrow> py_error option \<times> entry list \<times> nat" where
  "siftup_loop heap pos =
     (if pos < length heap div 2
      then (if 2 * pos + 2 < length heap
            then (case entry_lt (heap ! (2 * pos + 1)) (heap ! (2 * pos + 2)) of
                    Inl err \<Rightarrow> (Some err, heap, pos)
                  | Inr lt \<Rightarrow>
                      if lt
                      then siftup_loop (heap[2 * pos + 1 := heap ! pos, pos := heap ! (2 * pos + 1)])
                             (2 * pos + 1)
                      else siftup_loop (heap[2 * pos + 2 := heap ! pos, pos := heap ! (2 * pos + 2)])
                             (2 * pos + 2))
            else siftup_loop (heap[2 * pos + 1 := heap ! pos, pos := heap ! (2 * pos + 1)])
                   (2 * pos + 1))
      else (None, heap, pos))"
  by pat_completeness auto
termination
  by (relation "measure (\<lambda>(heap, pos). length heap - pos)") auto

declare siftup_loop.simps [simp del]

definition siftup :: "entry list \<Rightarrow> nat \<Rightarrow> py_error option \<times> entry list" where
  "siftup heap pos =
     (case siftup_loop heap pos of
        (Some err, heap', pos') \<Rightarrow> (Some err, heap')
      | (None, heap', pos') \<Rightarrow> siftdown heap' pos pos')"

text \<open>\<open>PriorityQueue.put\<close>: \<open>heappush\<close> appends the entry and sifts it down.\<close>

definition queue_put :: "entry list \<Rightarrow> entry \<Rightarrow> py_error option \<times> entry list" where
  "queue_put heap item = siftdown (heap @ [item]) 0 (length heap)"

text \<open>
  \<open>PriorityQueue.get\<close> on a queue that is not empty: \<open>heappop\<close> takes the last entry off
  the list, returns it if the list is now empty, and otherwise puts it in the place of
  the first entry, which it returns after \<open>siftup\<close>. When a comparison raises, the first
  entry is lost with the exception.
\<close>

definition queue_get :: "entry list \<Rightarrow> (py_error + entry) \<times> entry list" where
  "queue_get heap =
     (let lastelt = last heap; rest = butlast heap
      in if rest = [] then (Inr lastelt, [])
         else (case siftup (rest[0 := lastelt]) 0 of
                 (Some err, heap') \<Rightarrow> (Inl err, heap')
               | (None, heap') \<Rightarrow> (Inr (hd rest), heap')))"

subsection \<open>Saving the state\<close>

definition agent_json :: "agent \<Rightarrow> pyval" where
  "agent_json a =
     PDict [(''name'', PStr (ag_name a)), (''state'', PStr (ag_state a)),
            (''type'', PStr (ag_type a))]"

text \<open>Python's slice \<open>xs[-100:]\<close>.\<close>

definition last_100 :: "'a list \<Rightarrow> 'a list" where
  "last_100 xs = drop (length xs - 100) xs"

definition state_data :: "orchestrator \<Rightarrow> string \<Rightarrow> pyval" where
  "state_data s now =
     PDict [(''orchestrator_id'', PStr (orchestrator_id s)),
            (''autonomy_level'', PStr (level_value (orch_level s))),
            (''agents'', PDict (map (\<lambda>(i, a). (i, agent_json a)) (agents s))),
            (''active_tasks'', PDict (map (\<lambda>(i, w). (i, wrapper_json w)) (active_tasks s))),
            (''completed_tasks'', PList (map wrapper_json (last_100 (completed_tasks s)))),
            (''pending_approval'', PList (map wrapper_json (pending_approval s))),
            (''timestamp'', PStr now)]"

text \<open>
  \<open>_save_state\<close> dumps \<open>state_data\<close> into the state file; the result is the exception
  \<open>json.dump\<close> raises, if any. The text of the state file is not part of the model.
\<close>

definition save_state :: "orchestrator \<Rightarrow> string \<Rightarrow> py_error option" where
  "save_state s now = (if snd (json_dump (state_data s now)) then None else Some TypeError)"

subsection \<open>Operations\<close>

text \<open>
  \<open>submit_task\<close>. \<open>uuid\<close> is the text of \<open>uuid.uuid4().hex\<close> and \<open>now\<close> the reading of the
  clock. The result is the task id or the exception raised, with the state reached.
\<close>

definition submit_task ::
  "orchestrator \<Rightarrow> string \<Rightarrow> task_dict \<Rightarrow> AgentPriority \<Rightarrow> string list option \<Rightarrow> bool
     \<Rightarrow> string \<Rightarrow> string \<Rightarrow> (py_error + string) \<times> orchestrator"
where
  "submit_task s name t prio deps req uuid now =
     (let tid = (case payload_id t of None \<Rightarrow> ''task_'' @ take 8 uuid | Some i \<Rightarrow> i);
          task_wrapper =
            \<lparr> task_id = tid,
              agent_name = name,
              task = t\<lparr> payload_id := Some tid \<rparr>,
              priority = prio,
              dependencies = (case deps of None \<Rightarrow> [] | Some ds \<Rightarrow> ds),
              requires_approval_flag = (req \<or> orch_level s = MANUAL),
              status = QUEUED,
              submitted_at = now,
              started_at = None,
              completed_at = None,
              result = None \<rparr>;
          s1 = (case deps of
                  None \<Rightarrow> s
                | Some ds \<Rightarrow> if ds = [] then s
                             else s\<lparr> task_graph := (task_graph s)(tid \<mapsto> set ds) \<rparr>)
      in if requires_approval_flag task_wrapper
         then (let s2 = s1\<lparr> pending_approval :=
                              pending_approval s1 @ [task_wrapper\<lparr> status := WAITING_APPROVAL \<rparr>] \<rparr>
               in (case save_state s2 now of
                     Some err \<Rightarrow> (Inl err, s2)
                   | None \<Rightarrow> (Inr tid, s2)))
         else (case queue_put (task_queue s1) (priority_value prio, task_wrapper) of
                 (Some err, q) \<Rightarrow> (Inl err, s1\<lparr> task_queue := q \<rparr>)
               | (None, q) \<Rightarrow>
                   (let s2 = s1\<lparr> task_queue := q \<rparr>
                    in (case save_state s2 now of
                          Some err \<Rightarrow> (Inl err, s2)
                        | None \<Rightarrow> (Inr tid, s2)))))"

text \<open>The first pending entry with the given id, split off the list.\<close>

fun pop_pending :: "string \<Rightarrow> task_wrapper list \<Rightarrow> (task_wrapper \<times> task_wrapper list) option" where
  "pop_pending tid [] = None"
| "pop_pending tid (w # ws) =
     (if task_id w = tid then Some (w, ws)
      else (case pop_pending tid ws of
              None \<Rightarrow> None
            | Some (x, rest) \<Rightarrow> Some (x, w # rest)))"

definition approve_task ::
  "orchestrator \<Rightarrow> string \<Rightarrow> string \<Rightarrow> (py_error + bool) \<times> orchestrator" where
  "approve_task s tid now =
     (case pop_pending tid (pending_approval s) of
        None \<Rightarrow> (Inr False, s)
      | Some (w, rest) \<Rightarrow>
          (let task_wrapper = w\<lparr> status := APPROVED \<rparr>;
               s1 = s\<lparr> pending_approval := rest \<rparr>
           in (case queue_put (task_queue s1) (priority_value (priority task_wrapper), task_wrapper) of
                 (Some err, q) \<Rightarrow> (Inl err, s1\<lparr> task_queue := q \<rparr>)
               | (None, q) \<Rightarrow>
                   (let s2 = s1\<lparr> task_queue := q \<rparr>
                    in (case save_state s2 now of
                          Some err \<Rightarrow> (Inl err, s2)
                        | None \<Rightarrow> (Inr True, s2))))))"

definition reject_task ::
  "orchestrator \<Rightarrow> string \<Rightarrow> string \<Rightarrow> string \<Rightarrow> (py_error + bool) \<times> orchestrator" where
  "reject_task s tid reason now =
     (case pop_pending tid (pending_approval s) of
        None \<Rightarrow> (Inr False, s)
      | Some (w, rest) \<Rightarrow>
          (let task_wrapper = w\<lparr> status := CANCELLED,
                                   result := Some (PDict [(''error'', PStr reason)]) \<rparr>;
               s1 = s\<lparr> pending_approval := rest,
                       completed_tasks := completed_tasks s @ [task_wrapper] \<rparr>
           in (case save_state s1 now of
                 Some err \<Rightarrow> (Inl err, s1)
               | None \<Rightarrow> (Inr True, s1))))"

definition set_level :: "orchestrator \<Rightarrow> AutonomyLevel \<Rightarrow> string \<Rightarrow> py_error option \<times> orchestrator"
where
  "set_level s l now = (let s1 = s\<lparr> orch_level := l \<rparr> in (save_state s1 now, s1))"

definition register_agent :: "orchestrator \<Rightarrow> agent \<Rightarrow> string \<Rightarrow> py_error option \<times> orchestrator"
where
  "register_agent s a now =
     (let s1 = s\<lparr> agents := AList.update (ag_id a) a (agents s) \<rparr> in (save_state s1 now, s1))"

definition unregister_agent ::
  "orchestrator \<Rightarrow> string \<Rightarrow> string \<Rightarrow> py_error option \<times> orchestrator" where
  "unregister_agent s aid now =
     (case map_of (agents s) aid of
        None \<Rightarrow> (None, s)
      | Some a \<Rightarrow> (let s1 = s\<lparr> agents := AList.delete aid (agents s) \<rparr> in (save_state s1 now, s1)))"

definition find_agent_by_name :: "orchestrator \<Rightarrow> string \<Rightarrow> agent option" where
  "find_agent_by_name s name = find (\<lambda>a. ag_name a = name) (map snd (agents s))"

text \<open>\<open>_dependencies_met\<close>.\<close>

definition completed_ids :: "orchestrator \<Rightarrow> string set" where
  "completed_ids s = set (map task_id (filter (\<lambda>t. status t = COMPLETED) (completed_tasks s)))"

definition dependencies_met :: "orchestrator \<Rightarrow> string \<Rightarrow> bool" where
  "dependencies_met s tid =
     (case task_graph s tid of
        None \<Rightarrow> True
      | Some deps \<Rightarrow> deps \<subseteq> completed_ids s)"

text \<open>
  What \<open>agent.execute_task\<close> does is the environment's: it returns a result dictionary
  or raises an exception with a message.
\<close>

datatype exec_outcome = Returned "(string \<times> pyval) list" | Raised string

text \<open>
  The wrapper after \<open>_execute_task\<close> has run the agent: \<open>result["status"]\<close> raises
  \<open>KeyError\<close> when the key is missing, which the \<open>except\<close> clause records like any
  other exception.
\<close>

definition finished_wrapper :: "task_wrapper \<Rightarrow> exec_outcome \<Rightarrow> string \<Rightarrow> task_wrapper" where
  "finished_wrapper w outcome t_done =
     (case outcome of
        Raised msg \<Rightarrow> w\<lparr> status := FAILED, result := Some (PDict [(''error'', PStr msg)]) \<rparr>
      | Returned r \<Rightarrow>
          (case map_of r ''status'' of
             None \<Rightarrow> w\<lparr> status := FAILED,
                        result := Some (PDict [(''error'',
                                     PStr (CHR 0x27 # ''status'' @ [CHR 0x27]))]) \<rparr>
           | Some v \<Rightarrow> w\<lparr> result := Some (PDict r),
                          status := (if v = PStr ''success'' then COMPLETED else FAILED),
                          completed_at := Some t_done \<rparr>))"

text \<open>
  \<open>_execute_task\<close>, with the agent the task was handed to, if any. The wrapper is in
  \<open>active_tasks\<close> while the agent runs and is moved to \<open>completed_tasks\<close> in the
  \<open>finally\<close> clause; the exception of the final \<open>_save_state\<close> is caught by the worker
  loop.
\<close>

definition execute_task ::
  "orchestrator \<Rightarrow> task_wrapper \<Rightarrow> exec_outcome \<Rightarrow> string \<Rightarrow> string
     \<Rightarrow> orchestrator \<times> (agent \<times> task_wrapper) option" where
  "execute_task s w outcome t_start t_done =
     (case find_agent_by_name s (agent_name w) of
        None \<Rightarrow>
          (s\<lparr> completed_tasks := completed_tasks s @
                 [w\<lparr> status := FAILED,
                     result := Some (PDict [(''error'',
                                  PStr (''Agent not found: '' @ agent_name w))]) \<rparr>] \<rparr>,
           None)
      | Some a \<Rightarrow>
          (let running_wrapper = w\<lparr> status := RUNNING, started_at := Some t_start \<rparr>;
               s1 = s\<lparr> active_tasks := AList.update (task_id w) running_wrapper (active_tasks s) \<rparr>;
               done = finished_wrapper running_wrapper outcome t_done
           in (s1\<lparr> active_tasks := AList.delete (task_id w) (active_tasks s1),
                    completed_tasks := completed_tasks s1 @ [done] \<rparr>,
               Some (a, running_wrapper))))"

text \<open>
  One iteration of \<open>_worker_loop\<close>, with the dispatch it makes, if any. Every exception
  inside the iteration is caught and logged by the loop.
\<close>

definition worker_iteration ::
  "orchestrator \<Rightarrow> exec_outcome \<Rightarrow> string \<Rightarrow> string
     \<Rightarrow> orchestrator \<times> (agent \<times> task_wrapper) option" where
  "worker_iteration s outcome t_start t_done =
     (if \<not> running s \<or> task_queue s = [] then (s, None)
      else (case queue_get (task_queue s) of
              (Inl err, q) \<Rightarrow> (s\<lparr> task_queue := q \<rparr>, None)
            | (Inr (prio, task_wrapper), q) \<Rightarrow>
                (let s1 = s\<lparr> task_queue := q \<rparr>
                 in if \<not> dependencies_met s1 (task_id task_wrapper)
                    then (s1\<lparr> task_queue := snd (queue_put q (prio + 1, task_wrapper)) \<rparr>, None)
                    else execute_task s1 task_wrapper outcome t_start t_done)))"

subsection \<open>Executions\<close>

text \<open>
  The calls that change the orchestrator, each with the readings of the environment it
  uses (clock, uuid, what the agent does), and the step each makes. The monitor loop
  only reads the agents and saves the state, so it makes no step of its own.
\<close>

datatype call =
    Register agent string
  | Unregister string string
  | Submit string task_dict AgentPriority "string list option" bool string string
  | Approve string string
  | Reject string string string
  | Set_Level AutonomyLevel string
  | Start
  | Stop
  | Worker exec_outcome string string

fun step :: "orchestrator \<Rightarrow> call \<Rightarrow> orchestrator" where
  "step s (Register a now) = snd (register_agent s a now)"
| "step s (Unregister aid now) = snd (unregister_agent s aid now)"
| "step s (Submit name t prio deps req uuid now) = snd (submit_task s name t prio deps req uuid now)"
| "step s (Approve tid now) = snd (approve_task s tid now)"
| "step s (Reject tid reason now) = snd (reject_task s tid reason now)"
| "step s (Set_Level l now) = snd (set_level s l now)"
| "step s Start = s\<lparr> running := True \<rparr>"
| "step s Stop = s\<lparr> running := False \<rparr>"
| "step s (Worker outcome t_start t_done) = fst (worker_iteration s outcome t_start t_done)"

fun dispatch :: "orchestrator \<Rightarrow> call \<Rightarrow> (agent \<times> task_wrapper) option" where
  "dispatch s (Worker outcome t_start t_done) = snd (worker_iteration s outcome t_start t_done)"
| "dispatch s c = None"


text \<open>
  The dispatches of an execution, in order: each with the state it was made in and the
  wrapper handed to the agent.
\<close>

fun dispatches :: "orchestrator \<Rightarrow> call list \<Rightarrow> (orchestrator \<times> task_wrapper) list" where
  "dispatches s [] = []"
| "dispatches s (c # cs) =
     (case dispatch s c of
        None \<Rightarrow> dispatches (step s c) cs
      | Some (a, w) \<Rightarrow> (s, w) # dispatches (step s c) cs)"


subsection \<open>Example executions\<close>

text \<open>
  An agent named \<open>builder\<close>, task dictionaries with and without an \<open>"id"\<close>, the result
  of a successful execution, and a freshly constructed orchestrator.
\<close>

definition worker_agent :: agent where
  "worker_agent = \<lparr> ag_id = ''agent_1'', ag_name = ''builder'', ag_state = ''idle'',
                    ag_type = ''CodeGeneratorAgent'' \<rparr>"

definition plain_task :: "string \<Rightarrow> task_dict" where
  "plain_task i = \<lparr> payload_id = Some i, payload_items = [(''name'', PStr ''build'')] \<rparr>"

definition anonymous_task :: task_dict where
  "anonymous_task = \<lparr> payload_id = None, payload_items = [(''name'', PStr ''build'')] \<rparr>"

definition success :: exec_outcome where
  "success = Returned [(''status'', PStr ''success'')]"

definition orch0 :: orchestrator where
  "orch0 = new_orchestrator ''orchestrator_1''"

text \<open>
  \<open>T1\<close> with priority high, then \<open>T2\<close> with priority critical, neither with
  dependencies, and two iterations of the worker loop.
\<close>

definition priority_calls :: "call list" where
  "priority_calls =
     [Register worker_agent ''t0'', Start,
      Submit ''builder'' (plain_task ''T1'') PRIO_HIGH None False ''u1'' ''t1'',
      Submit ''builder'' (plain_task ''T2'') PRIO_CRITICAL None False ''u2'' ''t2'',
      Worker success ''t3'' ''t4'', Worker success ''t5'' ''t6'']"




section \<open>Properties of the autonomy controller\<close>

lemma approved_after_save [simp]:
  "approved_categories (save_config c now) = approved_categories c"
  by (simp add: save_config_def)

lemma level_after_save [simp]: "autonomy_level (save_config c now) = autonomy_level c"
  by (simp add: save_config_def)

lemma always_after_save [simp]:
  "always_require_approval (save_config c now) = always_require_approval c"
  by (simp add: save_config_def)

text \<open>
  C4, as stated, fails: with the default configuration at level \<open>semi_auto\<close>, revoking
  \<open>READ_FILE\<close> also removes it from the approved set of level \<open>full_auto\<close>.
\<close>

theorem revoke_approval_other_level_counterexample:
  "autonomy_level default_controller = ''semi_auto'' \<and>
   approved_categories (revoke_approval default_controller READ_FILE ''t'') ''full_auto''
     \<noteq> approved_categories default_controller ''full_auto''"
  by (auto simp: revoke_approval_def default_controller_def default_approved_def)

text \<open>
  C4, amended: \<open>revoke_approval\<close> removes the category from the approved set of every
  level, and leaves the level, the always-require set and the keys of the dictionary
  unchanged; \<open>approve_operation\<close> adds the category to the approved set of the current
  level only (when the dictionary has that level) and leaves every other level's set
  unchanged. Both save the configuration they produce.
\<close>

theorem approve_revoke_frame:
  "approved_categories (revoke_approval c operation now) level
     = map_option (\<lambda>s. s - {operation}) (approved_categories c level)
   \<and> autonomy_level (revoke_approval c operation now) = autonomy_level c
   \<and> always_require_approval (revoke_approval c operation now) = always_require_approval c
   \<and> approved_categories (snd (approve_operation c operation reason expiry now stamp)) level
     = (if level = autonomy_level c
        then map_option (insert operation) (approved_categories c level)
        else approved_categories c level)
   \<and> map_option doc_approved_categories (config_file (revoke_approval c operation now))
     = Some (approved_categories (revoke_approval c operation now))
   \<and> map_option doc_approved_categories
        (config_file (snd (approve_operation c operation reason expiry now stamp)))
     = Some (approved_categories (snd (approve_operation c operation reason expiry now stamp)))"
  by (auto simp: revoke_approval_def approve_operation_def save_config_def Let_def
           split: option.splits)

theorem approve_revoke_frame_witness:
  "approved_categories (revoke_approval default_controller WRITE_FILE ''t'') ''full_auto''
     = Some {READ_FILE, DELETE_FILE, EXECUTE_COMMAND, NETWORK_REQUEST,
             DATABASE_QUERY, DATABASE_WRITE, GIT_COMMIT, CREATE_BACKUP, MODIFY_CONFIG}
   \<and> approved_categories
        (snd (approve_operation default_controller GIT_COMMIT ''r'' None ''t'' ''20240101000000''))
        ''manual'' = Some {}"
  using approve_revoke_frame [of default_controller WRITE_FILE "''t''" "''full_auto''"]
        approve_revoke_frame [of default_controller GIT_COMMIT "''t''" "''manual''"
                                 "''r''" None "''20240101000000''"]
  by (auto simp: default_controller_def default_approved_def)

text \<open>
  C6, as stated, fails: at level \<open>semi_auto\<close>, once \<open>DELETE_FILE\<close> (risk high) has been
  approved for that level, \<open>requires_approval(DELETE_FILE)\<close> without a context returns
  \<open>False\<close>: the risk check stands inside \<open>if context:\<close>.
\<close>

theorem requires_approval_no_context_counterexample:
  "autonomy_level (snd (approve_operation default_controller DELETE_FILE ''r'' None ''t'' ''s''))
     = ''semi_auto''
   \<and> DELETE_FILE \<in> get_approved_operations
        (snd (approve_operation default_controller DELETE_FILE ''r'' None ''t'' ''s''))
   \<and> risk_of DELETE_FILE = HIGH
   \<and> requires_approval
        (snd (approve_operation default_controller DELETE_FILE ''r'' None ''t'' ''s''))
        DELETE_FILE None = Inr False"
  by (simp add: requires_approval_def approve_operation_def default_controller_def
        default_approved_def get_approved_operations_def risk_of_def)

text \<open>
  C6, amended: at level \<open>semi_auto\<close>, for every category in the approved set of
  \<open>semi_auto\<close> whose risk is high or critical, \<open>requires_approval(category, context)\<close>
  returns true for every context that is a dictionary with at least one key; with no
  context or an empty dictionary it returns true exactly when the category is in the
  always-require-approval set.
\<close>

theorem requires_approval_high_risk_semi_auto:
  assumes "autonomy_level c = ''semi_auto''"
    and "operation \<in> get_approved_operations c"
    and "risk_of operation = HIGH \<or> risk_of operation = CRITICAL"
  shows "requires_approval c operation context
           = Inr (operation \<in> always_require_approval c
                  \<or> (case context of None \<Rightarrow> False | Some ctx \<Rightarrow> ctx \<noteq> []))"
  using assms
  by (auto simp: requires_approval_def get_approved_operations_def Let_def
           split: option.splits)

theorem requires_approval_high_risk_semi_auto_witness:
  "requires_approval
     (snd (approve_operation default_controller DELETE_FILE ''r'' None ''t'' ''s''))
     DELETE_FILE (Some [(''path'', PStr ''notes.txt'')]) = Inr True"
proof -
  let ?c = "snd (approve_operation default_controller DELETE_FILE ''r'' None ''t'' ''s'')"
  have l: "autonomy_level ?c = ''semi_auto''"
    by (simp add: approve_operation_def default_controller_def default_approved_def)
  have a: "DELETE_FILE \<in> get_approved_operations ?c"
    by (simp add: approve_operation_def default_controller_def default_approved_def
          get_approved_operations_def)
  have r: "risk_of DELETE_FILE = HIGH \<or> risk_of DELETE_FILE = CRITICAL"
    by (simp add: risk_of_def)
  show ?thesis
    using requires_approval_high_risk_semi_auto
            [OF l a r, of "Some [(''path'', PStr ''notes.txt'')]"]
    by simp
qed


section \<open>Properties of \<open>json.dump\<close>\<close>

lemma json_iterencode_ok:
  "snd (json_iterencode level v) = json_encodable v"
  "snd (json_iterencode_list level first vs) = list_all json_encodable vs"
  "snd (json_iterencode_dict level first kvs) = list_all (\<lambda>kv. json_encodable (snd kv)) kvs"
  by (induction level v and level first vs and level first kvs
      rule: json_iterencode_json_iterencode_list_json_iterencode_dict.induct)
     (auto simp: Let_def split: prod.splits)

lemma json_dump_ok: "snd (json_dump v) = json_encodable v"
  by (simp add: json_dump_def json_iterencode_ok)

lemma json_dump_dict_nonempty: "kvs \<noteq> [] \<Longrightarrow> fst (json_dump (PDict kvs)) \<noteq> []"
  by (simp add: json_dump_def split: prod.splits)

section \<open>Properties of the state manager\<close>

lemma index_data_encodable:
  "json_encodable (index_data cur vs now) = encodable_history vs"
  by (auto simp: index_data_def entry_json_def encodable_history_def list_all_iff
           split: option.splits)

lemma save_version_history_eq:
  "save_version_history s now
     = (if encodable_history (versions s) then None else Some TypeError,
        s\<lparr> state_dir := AList.update versions_file
                           (index_text (current_version s) (versions s) now) (state_dir s) \<rparr>)"
  by (simp add: save_version_history_def split_def json_dump_ok index_text_def
        index_data_encodable)

lemma encodable_history_snoc [simp]:
  "encodable_history (vs @ [e]) = (encodable_history vs \<and> json_encodable (PDict (metadata e)))"
  by (simp add: encodable_history_def)

lemma encodable_history_simps [simp]:
  "encodable_history [] = True"
  "encodable_history (e # vs) = (json_encodable (PDict (metadata e)) \<and> encodable_history vs)"
  by (simp_all add: encodable_history_def)

text \<open>The effect of \<open>create_snapshot\<close>, field by field.\<close>

lemma create_snapshot_fields:
  assumes "increment_version (current_version s) increment = Inr nv"
  shows "versions (snd (create_snapshot H s lbl increment meta te ts))
           = versions s @ [new_entry H s nv lbl increment meta te]"
    and "current_version (snd (create_snapshot H s lbl increment meta te ts)) = nv"
    and "backup_dir (snd (create_snapshot H s lbl increment meta te ts))
           = AList.update (snapshot_path nv)
               (copy_files (collect_state_files s)
                  (case map_of (backup_dir s) (snapshot_path nv) of None \<Rightarrow> [] | Some t \<Rightarrow> t))
               (backup_dir s)"
    and "state_dir (snd (create_snapshot H s lbl increment meta te ts))
           = AList.update versions_file
               (index_text nv (versions s @ [new_entry H s nv lbl increment meta te]) ts)
               (state_dir s)"
    and "fst (create_snapshot H s lbl increment meta te ts)
           = (if encodable_history (versions s @ [new_entry H s nv lbl increment meta te])
              then Inr nv else Inl TypeError)"
  using assms
  by (simp_all add: create_snapshot_def Let_def new_entry_def save_version_history_eq)

lemma create_snapshot_failed:
  assumes "increment_version (current_version s) increment = Inl err"
  shows "create_snapshot H s lbl increment meta te ts = (Inl err, s)"
  using assms by (simp add: create_snapshot_def)

text \<open>The effect of a \<open>restore_snapshot\<close> that passes both checks.\<close>

lemma restore_snapshot_fields:
  assumes "find (\<lambda>v. version v = ver) (versions s) = Some e"
    and "map_of (backup_dir s) (snapshot_dir e) = Some t0"
    and "create_snapshot H s (Some (''Before restore to v'' @ ver)) ''patch'' None te ts
           = (Inr nv, s1)"
  shows "versions (snd (restore_snapshot H s ver te ts tr)) = versions s1"
    and "current_version (snd (restore_snapshot H s ver te ts tr)) = ver"
    and "backup_dir (snd (restore_snapshot H s ver te ts tr)) = backup_dir s1"
    and "state_dir (snd (restore_snapshot H s ver te ts tr))
           = AList.update versions_file (index_text ver (versions s1) tr)
               (copy_files
                  (rglob_json (case map_of (backup_dir s1) (snapshot_dir e) of
                                 None \<Rightarrow> [] | Some t \<Rightarrow> t))
                  (filter (\<lambda>(p, bytes). \<not> is_json p) (state_dir s1)))"
    and "fst (restore_snapshot H s ver te ts tr)
           = (if encodable_history (versions s1) then Inr True else Inl TypeError)"
  using assms
  by (simp_all add: restore_snapshot_def Let_def save_version_history_eq)

lemma increment_patch_examples:
  "increment_version ''1.0.0'' ''patch'' = Inr ''1.0.1''"
  "increment_version ''1.0.1'' ''patch'' = Inr ''1.0.2''"
  "increment_version ''1.0.2'' ''patch'' = Inr ''1.0.3''"
  by code_simp+

lemma new_entry_simps [simp]:
  "version (new_entry H s nv lbl increment meta te) = nv"
  "timestamp (new_entry H s nv lbl increment meta te) = te"
  "snapshot_dir (new_entry H s nv lbl increment meta te) = snapshot_path nv"
  "metadata (new_entry H s nv lbl increment None te) = []"
  "state_hash (new_entry H s nv lbl increment meta te)
     = calculate_state_hash H (collect_state_files s)"
  by (simp_all add: new_entry_def)

lemma json_file_examples:
  "is_json [''agent.json'']" "is_json versions_file" "[''agent.json''] \<noteq> versions_file"
  by (simp_all add: is_json_def versions_file_def suffix_def)

lemma snapshot_path_inject [simp]: "(snapshot_path a = snapshot_path b) = (a = b)"
  by (simp add: snapshot_path_def)

text \<open>The example states, written out.\<close>

lemma sm_one_fields:
  "current_version sm_one = ''1.0.1''"
  "versions sm_one = [entry1]"
  "backup_dir sm_one = [(snapshot_path ''1.0.1'', [([''agent.json''], ''{}'')])]"
  "state_dir sm_one
     = [([''agent.json''], ''{}''), (versions_file, index_text ''1.0.1'' [entry1] ''t1'')]"
  using json_file_examples
  by (simp_all add: sm_one_def sm_fresh_def create_snapshot_fields increment_patch_examples
        collect_state_files_def rglob_json_def copy_files_def)

lemma sm_two_fields:
  "current_version sm_two = ''1.0.2''"
  "versions sm_two = [entry1, entry2]"
  "backup_dir sm_two
     = [(snapshot_path ''1.0.1'', [([''agent.json''], ''{}'')]),
        (snapshot_path ''1.0.2'',
         [([''agent.json''], ''{}''), (versions_file, index_text ''1.0.1'' [entry1] ''t1'')])]"
  "state_dir sm_two
     = [([''agent.json''], ''{}''), (versions_file, index_text ''1.0.2'' [entry1, entry2] ''t2'')]"
  using json_file_examples
  by (simp_all add: sm_two_def sm_one_fields create_snapshot_fields increment_patch_examples
        collect_state_files_def rglob_json_def copy_files_def)

lemma sm_restored_fields:
  "current_version sm_restored = ''1.0.1''"
  "versions sm_restored = [entry1, entry2, entry3]"
  "backup_dir sm_restored
     = [(snapshot_path ''1.0.1'', [([''agent.json''], ''{}'')]),
        (snapshot_path ''1.0.2'',
         [([''agent.json''], ''{}''), (versions_file, index_text ''1.0.1'' [entry1] ''t1'')]),
        (snapshot_path ''1.0.3'',
         [([''agent.json''], ''{}''),
          (versions_file, index_text ''1.0.2'' [entry1, entry2] ''t2'')])]"
  "state_dir sm_restored
     = [([''agent.json''], ''{}''),
        (versions_file, index_text ''1.0.1'' [entry1, entry2, entry3] ''t4'')]"
proof -
  let ?c = "create_snapshot (\<lambda>bytes. bytes) sm_two (Some (''Before restore to v'' @ ''1.0.1''))
              ''patch'' None ''t3'' ''t3''"
  have e: "find (\<lambda>v. version v = ''1.0.1'') (versions sm_two) = Some entry1"
    by (simp add: sm_two_fields)
  have t0: "map_of (backup_dir sm_two) (snapshot_dir entry1) = Some [([''agent.json''], ''{}'')]"
    by (simp add: sm_two_fields)
  have iv: "increment_version (current_version sm_two) ''patch'' = Inr ''1.0.3''"
    by (simp add: sm_two_fields increment_patch_examples)
  have "fst ?c = Inr ''1.0.3''"
    by (simp add: create_snapshot_fields [OF iv] sm_two_fields)
  then have c: "?c = (Inr ''1.0.3'', snd ?c)"
    by (simp add: prod_eq_iff)
  note r = restore_snapshot_fields [OF e t0 c]
  note f = create_snapshot_fields [OF iv]
  show "current_version sm_restored = ''1.0.1''"
    by (simp add: sm_restored_def r)
  show "versions sm_restored = [entry1, entry2, entry3]"
    by (simp add: sm_restored_def r f sm_two_fields)
  show "backup_dir sm_restored
     = [(snapshot_path ''1.0.1'', [([''agent.json''], ''{}'')]),
        (snapshot_path ''1.0.2'',
         [([''agent.json''], ''{}''), (versions_file, index_text ''1.0.1'' [entry1] ''t1'')]),
        (snapshot_path ''1.0.3'',
         [([''agent.json''], ''{}''),
          (versions_file, index_text ''1.0.2'' [entry1, entry2] ''t2'')])]"
    using json_file_examples
    by (simp add: sm_restored_def r f sm_two_fields collect_state_files_def rglob_json_def
          copy_files_def)
  show "state_dir sm_restored
     = [([''agent.json''], ''{}''),
        (versions_file, index_text ''1.0.1'' [entry1, entry2, entry3] ''t4'')]"
    using json_file_examples
    by (simp add: sm_restored_def r f sm_two_fields collect_state_files_def rglob_json_def
          copy_files_def)
qed


lemma str_le_examples: "''t1'' \<le> ''t2''" "\<not> ''t3'' \<le> ''t2''" "''t2'' \<le> ''t3''" "\<not> ''t2'' \<le> ''t1''"
  by simp_all

lemma map_of_delete_all:
  "map_of (foldl (\<lambda>b v. AList.delete (f v) b) b0 vs) d
     = (if d \<in> f ` set vs then None else map_of b0 d)"
  by (induction vs arbitrary: b0) (auto simp: delete_conv')

lemma set_sorted_reverse [simp]: "set (sorted_reverse key xs) = set xs"
  by (simp add: sorted_reverse_def)

lemma length_sorted_reverse [simp]: "length (sorted_reverse key xs) = length xs"
  by (simp add: sorted_reverse_def)

lemma sorted_reverse_split:
  assumes "k \<in> set (take n (sorted_reverse key xs))"
    and "r \<in> set (drop n (sorted_reverse key xs))"
  shows "key r \<le> key k"
proof -
  let ?ys = "sort_key key (rev xs)"
  let ?m = "length ?ys - n"
  have "sorted (map key (take ?m ?ys @ drop ?m ?ys))"
    by simp
  then have le: "\<forall>a\<in>set (take ?m ?ys). \<forall>b\<in>set (drop ?m ?ys). key a \<le> key b"
    unfolding map_append sorted_append by auto
  from assms have "k \<in> set (drop ?m ?ys)" "r \<in> set (take ?m ?ys)"
    by (simp_all add: sorted_reverse_def take_rev drop_rev)
  with le show ?thesis by blast
qed

lemma sm_restored_sorted:
  "sorted_reverse timestamp (versions sm_restored)
     = [entry3, entry2, entry1]"
  by (simp add: sm_restored_fields sorted_reverse_def)

text \<open>
  C5, as stated, fails. After two snapshots and a restore of 1.0.1 the current version is
  1.0.1 and the history holds 1.0.1, 1.0.2 and the safety snapshot 1.0.3;
  \<open>cleanup_old_snapshots(2)\<close> keeps 1.0.3 and 1.0.2 and deletes the entry and the
  snapshot directory of 1.0.1, the current version.
\<close>

theorem cleanup_deletes_current_version_counterexample:
  "current_version sm_restored = ''1.0.1''
   \<and> map version (versions sm_restored) = [''1.0.1'', ''1.0.2'', ''1.0.3'']
   \<and> map_of (backup_dir sm_restored) (snapshot_path ''1.0.1'') \<noteq> None
   \<and> current_version (snd (cleanup_old_snapshots sm_restored 2 ''t5'')) = ''1.0.1''
   \<and> map version (versions (snd (cleanup_old_snapshots sm_restored 2 ''t5'')))
       = [''1.0.3'', ''1.0.2'']
   \<and> map_of (backup_dir (snd (cleanup_old_snapshots sm_restored 2 ''t5'')))
        (snapshot_path ''1.0.1'') = None"
proof -
  let ?s' = "snd (cleanup_old_snapshots sm_restored 2 ''t5'')"
  have before: "map_of (backup_dir sm_restored) (snapshot_path ''1.0.1'') \<noteq> None"
    by (simp add: sm_restored_fields)
  have len: "\<not> int (length (versions sm_restored)) \<le> 2"
    by (simp add: sm_restored_fields)
  have cur: "current_version ?s' = ''1.0.1''"
    using len by (simp add: cleanup_old_snapshots_def Let_def save_version_history_eq
                    sm_restored_fields(1))
  have "versions ?s' = slice_to 2 (sorted_reverse timestamp (versions sm_restored))"
    using len by (simp add: cleanup_old_snapshots_def Let_def save_version_history_eq)
  then have kept: "map version (versions ?s') = [''1.0.3'', ''1.0.2'']"
    by (simp add: sm_restored_sorted slice_to_def slice_bound_def)
  have "backup_dir ?s'
          = foldl (\<lambda>b v. AList.delete (snapshot_dir v) b) (backup_dir sm_restored)
              (slice_from 2 (sorted_reverse timestamp (versions sm_restored)))"
    using len by (simp add: cleanup_old_snapshots_def Let_def save_version_history_eq)
  then have gone: "map_of (backup_dir ?s') (snapshot_path ''1.0.1'') = None"
    by (simp add: sm_restored_sorted slice_from_def slice_bound_def delete_conv')
  show ?thesis
    using before cur kept gone by (simp add: sm_restored_fields)
qed


text \<open>
  C5, amended: when the history has at most \<open>keep_count\<close> entries,
  \<open>cleanup_old_snapshots\<close> changes nothing. Otherwise it sorts the entries by timestamp,
  most recent first, keeps the slice \<open>[:keep_count]\<close> (the \<open>keep_count\<close> most recent
  entries when \<open>keep_count\<close> is not negative) as the new history, and removes the snapshot
  directory of every other entry; no kept entry is older than a removed one, the other
  directories stay, and the current version string is unchanged. The current version's
  entry has no protection: it is removed like any other when it lies outside the slice.
\<close>

theorem cleanup_old_snapshots_retains:
  "(int (length (versions s)) \<le> keep_count \<longrightarrow> cleanup_old_snapshots s keep_count now = (None, s))
   \<and> (keep_count < int (length (versions s)) \<longrightarrow>
        (let sorted_versions = sorted_reverse timestamp (versions s);
             kept = slice_to keep_count sorted_versions;
             removed = slice_from keep_count sorted_versions;
             s' = snd (cleanup_old_snapshots s keep_count now)
         in versions s' = kept
            \<and> kept @ removed = sorted_versions
            \<and> (0 \<le> keep_count \<longrightarrow> length kept = nat keep_count)
            \<and> (\<forall>k\<in>set kept. \<forall>r\<in>set removed. timestamp r \<le> timestamp k)
            \<and> (\<forall>r\<in>set removed. map_of (backup_dir s') (snapshot_dir r) = None)
            \<and> (\<forall>d. d \<notin> snapshot_dir ` set removed
                   \<longrightarrow> map_of (backup_dir s') d = map_of (backup_dir s) d)
            \<and> current_version s' = current_version s))"
proof (intro conjI impI)
  assume "int (length (versions s)) \<le> keep_count"
  then show "cleanup_old_snapshots s keep_count now = (None, s)"
    by (simp add: cleanup_old_snapshots_def)
next
  assume lt: "keep_count < int (length (versions s))"
  let ?sv = "sorted_reverse timestamp (versions s)"
  let ?kept = "slice_to keep_count ?sv"
  let ?removed = "slice_from keep_count ?sv"
  let ?s' = "snd (cleanup_old_snapshots s keep_count now)"
  have v: "versions ?s' = ?kept"
    using lt by (simp add: cleanup_old_snapshots_def Let_def save_version_history_eq)
  have b: "backup_dir ?s'
             = foldl (\<lambda>b v. AList.delete (snapshot_dir v) b) (backup_dir s) ?removed"
    using lt by (simp add: cleanup_old_snapshots_def Let_def save_version_history_eq)
  have c: "current_version ?s' = current_version s"
    using lt by (simp add: cleanup_old_snapshots_def Let_def save_version_history_eq)
  have app: "?kept @ ?removed = ?sv"
    by (simp add: slice_to_def slice_from_def)
  have len: "0 \<le> keep_count \<longrightarrow> length ?kept = nat keep_count"
    using lt by (auto simp: slice_to_def slice_bound_def)
  have ord: "\<forall>k\<in>set ?kept. \<forall>r\<in>set ?removed. timestamp r \<le> timestamp k"
    unfolding slice_to_def slice_from_def by (blast intro: sorted_reverse_split)
  have gone: "\<forall>r\<in>set ?removed. map_of (backup_dir ?s') (snapshot_dir r) = None"
    by (simp add: b map_of_delete_all)
  have rest: "\<forall>d. d \<notin> snapshot_dir ` set ?removed
                 \<longrightarrow> map_of (backup_dir ?s') d = map_of (backup_dir s) d"
    by (simp add: b map_of_delete_all)
  show "let sorted_versions = ?sv; kept = slice_to keep_count sorted_versions;
            removed = slice_from keep_count sorted_versions;
            s' = snd (cleanup_old_snapshots s keep_count now)
        in versions s' = kept
           \<and> kept @ removed = sorted_versions
           \<and> (0 \<le> keep_count \<longrightarrow> length kept = nat keep_count)
           \<and> (\<forall>k\<in>set kept. \<forall>r\<in>set removed. timestamp r \<le> timestamp k)
           \<and> (\<forall>r\<in>set removed. map_of (backup_dir s') (snapshot_dir r) = None)
           \<and> (\<forall>d. d \<notin> snapshot_dir ` set removed
                  \<longrightarrow> map_of (backup_dir s') d = map_of (backup_dir s) d)
           \<and> current_version s' = current_version s"
    unfolding Let_def using v app len ord gone rest c by blast
qed

text \<open>C5, amended, at the history 1.0.1, 1.0.2, 1.0.3 with \<open>keep_count\<close> 1 and 3.\<close>

theorem cleanup_old_snapshots_retains_witness:
  "map version (versions (snd (cleanup_old_snapshots sm_restored 1 ''t5''))) = [''1.0.3'']
   \<and> cleanup_old_snapshots sm_restored 3 ''t5'' = (None, sm_restored)"
proof -
  have len: "length (versions sm_restored) = 3"
    by (simp add: sm_restored_fields)
  have "versions (snd (cleanup_old_snapshots sm_restored 1 ''t5''))
          = slice_to 1 (sorted_reverse timestamp (versions sm_restored))"
    using cleanup_old_snapshots_retains [of sm_restored 1 "''t5''"] len
    by (simp add: Let_def)
  moreover have "cleanup_old_snapshots sm_restored 3 ''t5'' = (None, sm_restored)"
    using cleanup_old_snapshots_retains [of sm_restored 3 "''t5''"] len
    by simp
  ultimately show ?thesis
    by (simp add: sm_restored_sorted slice_to_def slice_bound_def)
qed

text \<open>
  C9: when the version has no entry in the history, or the snapshot directory of its
  entry does not exist, \<open>restore_snapshot\<close> returns \<open>False\<close> and the state manager and
  the file system are the ones it started from: no safety snapshot, no state file
  deleted or written, the current version and the history unchanged.
\<close>

theorem restore_snapshot_unknown_version:
  assumes "ver \<notin> version ` set (versions s)
           \<or> (\<exists>e. find (\<lambda>v. version v = ver) (versions s) = Some e
                  \<and> map_of (backup_dir s) (snapshot_dir e) = None)"
  shows "restore_snapshot H s ver t_entry t_saved t_restored = (Inr False, s)"
proof (cases "find (\<lambda>v. version v = ver) (versions s)")
  case None
  then show ?thesis by (simp add: restore_snapshot_def)
next
  case (Some e)
  then have "ver \<in> version ` set (versions s)"
    by (auto simp: find_Some_iff)
  with assms Some have "map_of (backup_dir s) (snapshot_dir e) = None"
    by auto
  with Some show ?thesis by (simp add: restore_snapshot_def)
qed

text \<open>
  C9 at a state whose only entry, 1.0.1, has lost its snapshot directory: an unknown
  version and the known one both return \<open>False\<close> and leave the state as it was.
\<close>

theorem restore_snapshot_unknown_version_witness:
  "restore_snapshot (\<lambda>bytes. bytes) sm_example ''7.7.7'' ''t1'' ''t2'' ''t3''
     = (Inr False, sm_example)
   \<and> restore_snapshot (\<lambda>bytes. bytes) sm_example ''1.0.1'' ''t1'' ''t2'' ''t3''
     = (Inr False, sm_example)"
  using restore_snapshot_unknown_version
          [of "''7.7.7''" sm_example "\<lambda>bytes. bytes" "''t1''" "''t2''" "''t3''"]
        restore_snapshot_unknown_version
          [of "''1.0.1''" sm_example "\<lambda>bytes. bytes" "''t1''" "''t2''" "''t3''"]
  by (simp add: sm_example_def)


section \<open>The text of the version index\<close>




lemma index_text_nonempty: "index_text cur vs now \<noteq> []"
  unfolding index_text_def index_data_def by (rule json_dump_dict_nonempty) simp




section \<open>Snapshot directories under sequences of calls\<close>

lemma create_snapshot_backup_frame:
  assumes "next_dir s increment \<noteq> Some d"
  shows "map_of (backup_dir (snd (create_snapshot H s lbl increment meta te ts))) d
           = map_of (backup_dir s) d"
proof (cases "increment_version (current_version s) increment")
  case (Inl err)
  then show ?thesis by (simp add: create_snapshot_failed)
next
  case (Inr nv)
  with assms have "d \<noteq> snapshot_path nv" by (auto simp: next_dir_def)
  then show ?thesis
    by (simp add: create_snapshot_fields(3) [OF Inr] update_conv')
qed











section \<open>Restoring a snapshot and taking the next one\<close>

lemma update_fresh_key: "k \<notin> fst ` set al \<Longrightarrow> AList.update k v al = al @ [(k, v)]"
  by (induction al) auto

lemma copy_files_append:
  assumes "distinct (map fst files)" and "fst ` set files \<inter> fst ` set dst = {}"
  shows "copy_files files dst = dst @ files"
  using assms
proof (induction files arbitrary: dst)
  case Nil
  then show ?case by (simp add: copy_files_def)
next
  case (Cons f files)
  obtain p bytes where f: "f = (p, bytes)" by (cases f)
  from Cons.prems have fresh: "p \<notin> fst ` set dst"
    by (auto simp: f)
  from Cons.prems have "distinct (map fst files)"
    and "fst ` set files \<inter> fst ` set (dst @ [(p, bytes)]) = {}"
    by (auto simp: f)
  then have "copy_files files (dst @ [(p, bytes)]) = (dst @ [(p, bytes)]) @ files"
    by (rule Cons.IH)
  then show ?case
    by (simp add: copy_files_def f update_fresh_key [OF fresh])
qed

lemma rglob_json_update:
  "is_json k \<Longrightarrow> rglob_json (AList.update k v al) = AList.update k v (rglob_json al)"
  by (induction al) (auto simp: rglob_json_def)

lemma rglob_json_idem [simp]: "rglob_json (rglob_json t) = rglob_json t"
  by (simp add: rglob_json_def)

lemma rglob_json_rest [simp]: "rglob_json (filter (\<lambda>(p, bytes). \<not> is_json p) t) = []"
  by (induction t) (auto simp: rglob_json_def)

lemma rglob_json_append [simp]: "rglob_json (a @ b) = rglob_json a @ rglob_json b"
  by (simp add: rglob_json_def)

lemma non_index_update [simp]: "non_index (AList.update versions_file v al) = non_index al"
  by (induction al) (auto simp: non_index_def)

lemma distinct_rglob_json: "distinct (map fst t) \<Longrightarrow> distinct (map fst (rglob_json t))"
  by (simp add: rglob_json_def distinct_map_filter)

lemma restored_state_files:
  assumes "distinct (map fst t)"
  shows "rglob_json (AList.update versions_file text
                       (copy_files (rglob_json t) (filter (\<lambda>(p, bytes). \<not> is_json p) dir)))
           = AList.update versions_file text (rglob_json t)"
proof -
  have disj: "fst ` set (rglob_json t) \<inter> fst ` set (filter (\<lambda>(p, bytes). \<not> is_json p) dir) = {}"
    by (auto simp: rglob_json_def)
  have "copy_files (rglob_json t) (filter (\<lambda>(p, bytes). \<not> is_json p) dir)
          = filter (\<lambda>(p, bytes). \<not> is_json p) dir @ rglob_json t"
    using distinct_rglob_json [OF assms] disj by (rule copy_files_append)
  then show ?thesis
    by (simp add: rglob_json_update json_file_examples)
qed

text \<open>
  C3, amended: let \<open>restore_snapshot(v)\<close> succeed on an entry whose snapshot directory is
  not the one its safety snapshot writes into, and let \<open>create_snapshot\<close> follow
  immediately. Then the state files hashed are the \<open>.json\<close> files of the snapshot
  directory of \<open>v\<close>, byte for byte, except that \<open>versions.json\<close> is the index as
  \<open>restore_snapshot\<close> rewrote it; the new entry records the digest of exactly these
  files. The hash recorded for \<open>v\<close> is reproduced for the files other than the version
  index only.
\<close>

theorem restore_then_create_hash:
  assumes "find (\<lambda>v. version v = ver) (versions s) = Some e"
    and "map_of (backup_dir s) (snapshot_dir e) = Some t"
    and "distinct (map fst t)"
    and "next_dir s ''patch'' \<noteq> Some (snapshot_dir e)"
    and "restore_snapshot H s ver te ts tr = (Inr True, s')"
    and "create_snapshot H s' lbl increment meta te' ts' = (Inr nv', s'')"
  shows "state_hash (last (versions s''))
           = calculate_state_hash H
               (AList.update versions_file (index_text ver (versions s') tr) (rglob_json t))
         \<and> collect_state_files s'
           = AList.update versions_file (index_text ver (versions s') tr) (rglob_json t)
         \<and> non_index (collect_state_files s') = non_index (rglob_json t)"
proof -
  let ?c = "create_snapshot H s (Some (''Before restore to v'' @ ver)) ''patch'' None te ts"
  obtain r1 s1 where c: "?c = (r1, s1)" by (cases ?c)
  from assms(1,2,5) c obtain nv where r1: "r1 = Inr nv"
    by (cases r1) (auto simp: restore_snapshot_def)
  note r = restore_snapshot_fields [OF assms(1,2) c [unfolded r1]]
  have s': "s' = snd (restore_snapshot H s ver te ts tr)"
    by (simp add: assms(5))
  have "map_of (backup_dir s1) (snapshot_dir e) = map_of (backup_dir s) (snapshot_dir e)"
    using create_snapshot_backup_frame [OF assms(4), of H "Some (''Before restore to v'' @ ver)"
            None te ts] c
    by simp
  then have snap: "map_of (backup_dir s1) (snapshot_dir e) = Some t"
    by (simp add: assms(2))
  have files: "collect_state_files s' = AList.update versions_file
                 (index_text ver (versions s') tr) (rglob_json t)"
    unfolding collect_state_files_def s' r(4) r(1) snap option.case
    by (rule restored_state_files [OF assms(3)])
  have iv: "\<exists>nv. increment_version (current_version s') increment = Inr nv"
    using assms(6) by (cases "increment_version (current_version s') increment")
                       (auto simp: create_snapshot_failed)
  then obtain nv2 where iv: "increment_version (current_version s') increment = Inr nv2"
    by blast
  have "versions s'' = versions s' @ [new_entry H s' nv2 lbl increment meta te']"
    using create_snapshot_fields(1) [OF iv, of H lbl meta te' ts'] assms(6) by simp
  then have h: "state_hash (last (versions s'')) = calculate_state_hash H (collect_state_files s')"
    by simp
  show ?thesis
    using h files by simp
qed


lemma sm_round_restored_fields:
  "restore_snapshot (\<lambda>bytes. bytes) sm_one ''1.0.1'' ''t2'' ''t2'' ''t3''
     = (Inr True, sm_round_restored)"
  "current_version sm_round_restored = ''1.0.1''"
  "versions sm_round_restored = [entry1, safety2]"
  "backup_dir sm_round_restored
     = [(snapshot_path ''1.0.1'', [([''agent.json''], ''{}'')]),
        (snapshot_path ''1.0.2'',
         [([''agent.json''], ''{}''), (versions_file, index_text ''1.0.1'' [entry1] ''t1'')])]"
  "state_dir sm_round_restored
     = [([''agent.json''], ''{}''),
        (versions_file, index_text ''1.0.1'' [entry1, safety2] ''t3'')]"
proof -
  let ?c = "create_snapshot (\<lambda>bytes. bytes) sm_one (Some (''Before restore to v'' @ ''1.0.1''))
              ''patch'' None ''t2'' ''t2''"
  let ?r = "restore_snapshot (\<lambda>bytes. bytes) sm_one ''1.0.1'' ''t2'' ''t2'' ''t3''"
  have e: "find (\<lambda>v. version v = ''1.0.1'') (versions sm_one) = Some entry1"
    by (simp add: sm_one_fields)
  have t0: "map_of (backup_dir sm_one) (snapshot_dir entry1) = Some [([''agent.json''], ''{}'')]"
    by (simp add: sm_one_fields)
  have iv: "increment_version (current_version sm_one) ''patch'' = Inr ''1.0.2''"
    by (simp add: sm_one_fields increment_patch_examples)
  note f = create_snapshot_fields [OF iv]
  have "fst ?c = Inr ''1.0.2''"
    by (simp add: f sm_one_fields)
  then have c: "?c = (Inr ''1.0.2'', snd ?c)"
    by (simp add: prod_eq_iff)
  note r = restore_snapshot_fields [OF e t0 c]
  have "fst ?r = Inr True"
    by (simp add: r f sm_one_fields)
  then show "?r = (Inr True, sm_round_restored)"
    by (simp add: prod_eq_iff sm_round_restored_def)
  show "current_version sm_round_restored = ''1.0.1''"
    by (simp add: sm_round_restored_def r)
  show "versions sm_round_restored = [entry1, safety2]"
    by (simp add: sm_round_restored_def r f sm_one_fields)
  show "backup_dir sm_round_restored
     = [(snapshot_path ''1.0.1'', [([''agent.json''], ''{}'')]),
        (snapshot_path ''1.0.2'',
         [([''agent.json''], ''{}''), (versions_file, index_text ''1.0.1'' [entry1] ''t1'')])]"
    using json_file_examples
    by (simp add: sm_round_restored_def r f sm_one_fields collect_state_files_def
          rglob_json_def copy_files_def)
  show "state_dir sm_round_restored
     = [([''agent.json''], ''{}''),
        (versions_file, index_text ''1.0.1'' [entry1, safety2] ''t3'')]"
    using json_file_examples
    by (simp add: sm_round_restored_def r f sm_one_fields collect_state_files_def
          rglob_json_def copy_files_def)
qed

lemma sm_round_fields:
  "create_snapshot (\<lambda>bytes. bytes) sm_round_restored None ''patch'' None ''t4'' ''t4''
     = (Inr ''1.0.2'', sm_round)"
  "last (versions sm_round)
     = new_entry (\<lambda>bytes. bytes) sm_round_restored ''1.0.2'' None ''patch'' None ''t4''"
proof -
  let ?c = "create_snapshot (\<lambda>bytes. bytes) sm_round_restored None ''patch'' None ''t4'' ''t4''"
  have iv: "increment_version (current_version sm_round_restored) ''patch'' = Inr ''1.0.2''"
    by (simp add: sm_round_restored_fields increment_patch_examples)
  note f = create_snapshot_fields [OF iv]
  have "fst ?c = Inr ''1.0.2''"
    by (simp add: f sm_round_restored_fields)
  then show "?c = (Inr ''1.0.2'', sm_round)"
    by (simp add: prod_eq_iff sm_round_def)
  show "last (versions sm_round)
     = new_entry (\<lambda>bytes. bytes) sm_round_restored ''1.0.2'' None ''patch'' None ''t4''"
    by (simp add: sm_round_def f)
qed

lemma agent_before_index: "[''agent.json''] \<le> versions_file"
  by (simp add: versions_file_def)

text \<open>
  C3, as stated, fails. In a fresh workspace with one state file, snapshot 1.0.1 hashes the
  bytes of that file alone. After \<open>restore_snapshot("1.0.1")\<close> the state directory also
  holds the \<open>versions.json\<close> that the restore wrote, so the next snapshot hashes the
  bytes of both files. The digest function is a parameter; with the identity in its place
  the two recorded hashes are the two byte strings, which differ, and any digest that
  separates them (as SHA-256 does) gives the same verdict.
\<close>

theorem restore_create_hash_counterexample:
  "find (\<lambda>v. version v = ''1.0.1'') (versions sm_one) = Some entry1
   \<and> restore_snapshot (\<lambda>bytes. bytes) sm_one ''1.0.1'' ''t2'' ''t2'' ''t3''
       = (Inr True, sm_round_restored)
   \<and> create_snapshot (\<lambda>bytes. bytes) sm_round_restored None ''patch'' None ''t4'' ''t4''
       = (Inr ''1.0.2'', sm_round)
   \<and> state_hash entry1 = ''{}''
   \<and> state_hash (last (versions sm_round))
       = ''{}'' @ index_text ''1.0.1'' [entry1, safety2] ''t3''
   \<and> state_hash (last (versions sm_round)) \<noteq> state_hash entry1"
proof -
  have v: "state_hash entry1 = ''{}''"
    using json_file_examples
    by (simp add: calculate_state_hash_def hash_input_def collect_state_files_def
          rglob_json_def sm_fresh_def)
  have n: "state_hash (last (versions sm_round))
             = ''{}'' @ index_text ''1.0.1'' [entry1, safety2] ''t3''"
    using json_file_examples agent_before_index
    by (simp add: sm_round_fields(2) calculate_state_hash_def hash_input_def
          collect_state_files_def rglob_json_def sm_round_restored_fields)
  have "index_text ''1.0.1'' [entry1, safety2] ''t3'' \<noteq> []"
    by (rule index_text_nonempty)
  with v n have "state_hash (last (versions sm_round)) \<noteq> state_hash entry1"
    by simp
  with v n show ?thesis
    by (simp add: sm_one_fields sm_round_restored_fields(1) sm_round_fields(1))
qed

text \<open>C3, amended, at the same run: snapshot 1.0.1, its restore, and the next snapshot.\<close>

theorem restore_then_create_hash_witness:
  "state_hash (last (versions sm_round))
     = calculate_state_hash (\<lambda>bytes. bytes)
         [([''agent.json''], ''{}''),
          (versions_file, index_text ''1.0.1'' [entry1, safety2] ''t3'')]
   \<and> non_index (collect_state_files sm_round_restored) = [([''agent.json''], ''{}'')]"
proof -
  have e: "find (\<lambda>v. version v = ''1.0.1'') (versions sm_one) = Some entry1"
    by (simp add: sm_one_fields)
  have t: "map_of (backup_dir sm_one) (snapshot_dir entry1) = Some [([''agent.json''], ''{}'')]"
    by (simp add: sm_one_fields)
  have d: "distinct (map fst [([''agent.json''], ''{}'')])"
    by simp
  have n: "next_dir sm_one ''patch'' \<noteq> Some (snapshot_dir entry1)"
    by (simp add: next_dir_def sm_one_fields increment_patch_examples)
  show ?thesis
    using restore_then_create_hash [OF e t d n sm_round_restored_fields(1) sm_round_fields(1)]
          json_file_examples
    by (simp add: rglob_json_def non_index_def sm_round_restored_fields)
qed


section \<open>Properties of the orchestrator\<close>

lemma wrapper_not_encodable [simp]: "\<not> json_encodable (wrapper_json w)"
  by (simp add: wrapper_json_def)

lemma agent_encodable [simp]: "json_encodable (agent_json a)"
  by (simp add: agent_json_def)

lemma last_100_Nil [simp]: "(last_100 xs = []) = (xs = [])"
  by (cases xs) (simp_all add: last_100_def)

lemma wrappers_encodable [simp]:
  "list_all json_encodable (map wrapper_json ws) = (ws = [])"
  by (cases ws) simp_all

lemma active_encodable [simp]:
  "list_all (\<lambda>kv. json_encodable (snd kv)) (map (\<lambda>(i, w). (i, wrapper_json w)) ws) = (ws = [])"
  by (cases ws) (simp_all add: split_def)

lemma agents_encodable [simp]:
  "list_all (\<lambda>kv. json_encodable (snd kv)) (map (\<lambda>(i, a). (i, agent_json a)) as)"
  by (induction as) (simp_all add: split_def)

text \<open>
  \<open>_save_state\<close> raises exactly when a task wrapper is among the data it dumps: every
  wrapper holds its priority and its status as \<open>Enum\<close> members.
\<close>

lemma save_state_eq:
  "save_state s now
     = (if active_tasks s = [] \<and> completed_tasks s = [] \<and> pending_approval s = []
        then None else Some TypeError)"
  by (simp add: save_state_def json_dump_ok state_data_def)


subsection \<open>Submitting on the approval path\<close>

text \<open>
  C2: when \<open>submit_task\<close> is called with \<open>requires_approval\<close> true, or while the autonomy
  level is manual, it raises \<open>TypeError\<close> instead of returning the task id. The wrapper it
  has appended to \<open>pending_approval\<close> by then, with status \<open>WAITING_APPROVAL\<close> and the
  priority given, holds \<open>Enum\<close> members, so it cannot be encoded and the \<open>_save_state\<close>
  of the state reached raises; the task queue is left as it was.
\<close>

theorem submit_task_approval_raises:
  assumes "req \<or> orch_level s = MANUAL"
  shows "fst (submit_task s name t prio deps req uuid now) = Inl TypeError
         \<and> pending_approval (snd (submit_task s name t prio deps req uuid now))
             = pending_approval s
               @ [last (pending_approval (snd (submit_task s name t prio deps req uuid now)))]
         \<and> status (last (pending_approval (snd (submit_task s name t prio deps req uuid now))))
             = WAITING_APPROVAL
         \<and> priority (last (pending_approval (snd (submit_task s name t prio deps req uuid now))))
             = prio
         \<and> \<not> json_encodable
               (wrapper_json
                  (last (pending_approval (snd (submit_task s name t prio deps req uuid now)))))
         \<and> save_state (snd (submit_task s name t prio deps req uuid now)) now = Some TypeError
         \<and> task_queue (snd (submit_task s name t prio deps req uuid now)) = task_queue s"
proof -
  let ?r = "submit_task s name t prio deps req uuid now"
  define tid where "tid = (case payload_id t of None \<Rightarrow> ''task_'' @ take 8 uuid | Some i \<Rightarrow> i)"
  define w where
    "w = \<lparr> task_id = tid, agent_name = name, task = t\<lparr> payload_id := Some tid \<rparr>,
           priority = prio, dependencies = (case deps of None \<Rightarrow> [] | Some ds \<Rightarrow> ds),
           requires_approval_flag = True, status = WAITING_APPROVAL, submitted_at = now,
           started_at = None, completed_at = None, result = None \<rparr>"
  have p: "pending_approval (snd ?r) = pending_approval s @ [w]"
    using assms
    by (auto simp: submit_task_def Let_def save_state_eq tid_def w_def split: option.splits)
  have q: "task_queue (snd ?r) = task_queue s"
    using assms
    by (auto simp: submit_task_def Let_def save_state_eq split: option.splits)
  have f: "fst ?r = Inl TypeError"
    using assms
    by (auto simp: submit_task_def Let_def save_state_eq split: option.splits)
  have l: "last (pending_approval (snd ?r)) = w"
    by (simp add: p)
  have sv: "save_state (snd ?r) now = Some TypeError"
    by (simp add: save_state_eq p)
  show ?thesis
    unfolding l using p q f sv by (simp add: w_def)
qed

text \<open>
  C2 on a freshly constructed orchestrator: with \<open>requires_approval\<close> true, and at the
  manual level with \<open>requires_approval\<close> false.
\<close>

theorem submit_task_approval_raises_witness:
  "fst (submit_task (new_orchestrator ''orchestrator_1'') ''builder'' (plain_task ''T1'')
          PRIO_HIGH None True ''0123456789abcdef'' ''2024-01-01T00:00:00'') = Inl TypeError
   \<and> fst (submit_task ((new_orchestrator ''orchestrator_1'')\<lparr> orch_level := MANUAL \<rparr>) ''builder''
            anonymous_task PRIO_LOW None False ''0123456789abcdef'' ''2024-01-01T00:00:00'')
       = Inl TypeError"
  using submit_task_approval_raises
          [of True "new_orchestrator ''orchestrator_1''" "''builder''" "plain_task ''T1''"
              PRIO_HIGH None "''0123456789abcdef''" "''2024-01-01T00:00:00''"]
        submit_task_approval_raises
          [of False "(new_orchestrator ''orchestrator_1'')\<lparr> orch_level := MANUAL \<rparr>"
              "''builder''" anonymous_task PRIO_LOW None "''0123456789abcdef''"
              "''2024-01-01T00:00:00''"]
  by simp


subsection \<open>Task ids\<close>

lemma submit_task_result:
  "fst (submit_task s name t prio deps req uuid now) = Inr i
     \<Longrightarrow> i = (case payload_id t of None \<Rightarrow> ''task_'' @ take 8 uuid | Some j \<Rightarrow> j)"
  by (auto simp: submit_task_def Let_def split: option.splits if_splits prod.splits)

text \<open>
  C8 fails when the caller's dictionaries carry an \<open>"id"\<close>: two calls of \<open>submit_task\<close>,
  each with a task dictionary whose \<open>"id"\<close> is \<open>job\<close>, both return \<open>job\<close>.
\<close>

theorem submit_task_same_id_counterexample:
  "fst (submit_task (new_orchestrator ''orchestrator_1'') ''builder'' (plain_task ''job'')
          PRIO_HIGH None False ''0123456789abcdef'' ''t1'') = Inr ''job''
   \<and> fst (submit_task
            (snd (submit_task (new_orchestrator ''orchestrator_1'') ''builder'' (plain_task ''job'')
                    PRIO_HIGH None False ''0123456789abcdef'' ''t1''))
            ''builder'' (plain_task ''job'') PRIO_LOW None False ''fedcba9876543210'' ''t2'')
       = Inr ''job''"
  by code_simp

text \<open>
  C8, amended: the id a successful \<open>submit_task\<close> returns is the \<open>"id"\<close> of the caller's
  dictionary when it has one, and otherwise \<open>task_\<close> followed by the first eight
  characters of the uuid drawn; so two calls whose dictionaries carry no \<open>"id"\<close> return
  different ids whenever their uuids differ in the first eight characters.
\<close>

theorem submit_task_returned_id:
  assumes "fst (submit_task s name t prio deps req uuid now) = Inr i"
    and "fst (submit_task s' name' t' prio' deps' req' uuid' now') = Inr i'"
  shows "i = (case payload_id t of None \<Rightarrow> ''task_'' @ take 8 uuid | Some j \<Rightarrow> j)
         \<and> (payload_id t = None \<and> payload_id t' = None \<and> take 8 uuid \<noteq> take 8 uuid'
              \<longrightarrow> i \<noteq> i')"
proof -
  have a: "i = (case payload_id t of None \<Rightarrow> ''task_'' @ take 8 uuid | Some j \<Rightarrow> j)"
    using assms(1) by (rule submit_task_result)
  have b: "i' = (case payload_id t' of None \<Rightarrow> ''task_'' @ take 8 uuid' | Some j \<Rightarrow> j)"
    using assms(2) by (rule submit_task_result)
  show ?thesis
    using a b by simp
qed

text \<open>
  C8, amended, at two submissions without an \<open>"id"\<close> on a freshly constructed
  orchestrator.
\<close>

theorem submit_task_returned_id_witness:
  "fst (submit_task (new_orchestrator ''orchestrator_1'') ''builder'' anonymous_task
          PRIO_HIGH None False ''0123456789abcdef'' ''t1'') = Inr ''task_01234567''
   \<and> fst (submit_task
            (snd (submit_task (new_orchestrator ''orchestrator_1'') ''builder'' anonymous_task
                    PRIO_HIGH None False ''0123456789abcdef'' ''t1''))
            ''builder'' anonymous_task PRIO_LOW None False ''fedcba9876543210'' ''t2'')
       = Inr ''task_fedcba98''"
proof -
  let ?s1 = "snd (submit_task (new_orchestrator ''orchestrator_1'') ''builder'' anonymous_task
                    PRIO_HIGH None False ''0123456789abcdef'' ''t1'')"
  have a: "fst (submit_task (new_orchestrator ''orchestrator_1'') ''builder'' anonymous_task
                  PRIO_HIGH None False ''0123456789abcdef'' ''t1'') = Inr ''task_01234567''"
    by code_simp
  have b: "fst (submit_task ?s1 ''builder'' anonymous_task PRIO_LOW None False
                  ''fedcba9876543210'' ''t2'') = Inr ''task_fedcba98''"
    by code_simp
  from submit_task_returned_id [OF a b] a b show ?thesis
    by simp
qed


subsection \<open>Dispatch and dependencies\<close>

lemma completed_ids_queue [simp]: "completed_ids (s\<lparr> task_queue := q \<rparr>) = completed_ids s"
  by (simp add: completed_ids_def)

lemma dependencies_met_queue [simp]:
  "dependencies_met (s\<lparr> task_queue := q \<rparr>) tid = dependencies_met s tid"
  by (simp add: dependencies_met_def split: option.splits)












subsection \<open>The order of dispatch\<close>

text \<open>
  The queue starts empty; after two entries with different numbers have been put, \<open>get\<close>
  returns the one with the smaller number, whichever was put first.
\<close>

lemma queue_put_empty: "queue_put [] e = (None, [e])"
  by (simp add: queue_put_def siftdown.simps)

lemma queue_put_single:
  "fst a \<noteq> fst b \<Longrightarrow> queue_put [a] b = (None, if fst b < fst a then [b, a] else [a, b])"
  by (simp add: queue_put_def siftdown.simps [of _ 0 "Suc 0"] siftdown.simps [of _ 0 0]
        entry_lt_def)

lemma queue_get_two: "fst (queue_get [a, b]) = Inr a"
  by (simp add: queue_get_def Let_def siftup_def siftup_loop.simps siftdown.simps)

lemma queue_get_smaller_number:
  "p1 \<noteq> p2 \<Longrightarrow>
     fst (queue_get (snd (queue_put (snd (queue_put [] (p1, w1))) (p2, w2))))
       = Inr (if p1 < p2 then (p1, w1) else (p2, w2))"
  by (simp add: queue_put_empty queue_put_single queue_get_two)

text \<open>
  C1 at the scenario of the claim: \<open>T1\<close> is submitted with priority high and then \<open>T2\<close>
  with priority critical, neither with dependencies, to an orchestrator with the agent
  registered and the worker loop running. The worker loop dispatches \<open>T1\<close> and then
  \<open>T2\<close>: the queue is keyed by the value of the priority, 3 for high and 4 for critical,
  and returns the entry with the smallest key first.
\<close>

theorem dispatch_order_high_before_critical:
  "map (\<lambda>(s, w). (task_id w, priority w)) (dispatches orch0 priority_calls)
     = [(''T1'', PRIO_HIGH), (''T2'', PRIO_CRITICAL)]"
  by code_simp

text \<open>
  Within one priority the keys are equal and the comparison falls through to the two
  wrappers: the second submission raises \<open>TypeError\<close>.
\<close>

lemma equal_priorities_raise:
  "fst (submit_task
          (snd (submit_task orch0 ''builder'' (plain_task ''T1'') PRIO_HIGH None False ''u1'' ''t1''))
          ''builder'' (plain_task ''T2'') PRIO_HIGH None False ''u2'' ''t2'') = Inl TypeError"
  by code_simp

subsection \<open>Dependencies recorded and dispatch\<close>





end
